theory Spec2Isabelle
  imports Main "HOL-Library.Sublist"
begin

section \<open>Go values shared by the two resources\<close>

text \<open>
  A Go \<open>error\<close> value. \<open>AWSErr code message status\<close> is an \<open>awserr.Error\<close>; the status is
  present when the error is also an \<open>awserr.RequestFailure\<close>. \<open>Errorf format args err\<close> is
  \<open>fmt.Errorf(format, args..., err)\<close>: the format text, the string arguments before the
  error, and the error whose text is embedded. \<open>GoPanic\<close> is a run-time panic (index out
  of range, nil dereference, failed type assertion); it is no error value in Go, it
  unwinds through every caller, which \<open>wrapf\<close> below reproduces.
\<close>

datatype error =
    AWSErr string string "nat option"
  | ErrorsNew string
  | Errorf string "string list" error
  | UnexpectedStateError string "string list"
  | TimeoutError string "string list"
  | NotFoundError nat
  | GoPanic string

fun wrapf :: "string \<Rightarrow> string list \<Rightarrow> error \<Rightarrow> error" where
  "wrapf fmt args (GoPanic m) = GoPanic m"
| "wrapf fmt args e = Errorf fmt args e"

text \<open>
  \<open>isAWSErr(err, code, message)\<close>: the error is an AWS error with that code whose message
  contains \<open>message\<close>. \<open>tfawserr.ErrStatusCodeEquals(err, n)\<close>: the error is a request
  failure with HTTP status \<open>n\<close>.
\<close>

fun isAWSErr :: "error \<Rightarrow> string \<Rightarrow> string \<Rightarrow> bool" where
  "isAWSErr (AWSErr c m sc) code message = (c = code \<and> sublist message m)"
| "isAWSErr _ code message = False"

fun ErrStatusCodeEquals :: "error \<Rightarrow> nat \<Rightarrow> bool" where
  "ErrStatusCodeEquals (AWSErr c m (Some sc)) n = (sc = n)"
| "ErrStatusCodeEquals _ n = False"

definition StringValue :: "string option \<Rightarrow> string" where
  "StringValue p = (case p of None \<Rightarrow> [] | Some v \<Rightarrow> v)"

subsection \<open>The attribute bag: \<open>schema.ResourceData\<close>\<close>

text \<open>
  An attribute value is an \<open>interface{}\<close> holding a string, a bool, a set of strings, a
  map of strings, a list of string maps or the set of grant blocks of the object copy.
  A \<open>schema.Set\<close> of strings is represented by the list of its elements; \<open>Difference\<close>
  keeps the elements of the receiver that the argument lacks, \<open>Len\<close> is the length, and
  \<open>Equal\<close> (which \<open>HasChange\<close> uses) compares the elements.
\<close>

record grant =
  grant_email :: string
  grant_id :: string
  grant_permissions :: "string list"
  grant_type :: string
  grant_uri :: string

datatype val =
    VString string
  | VBool bool
  | VSet "string list"
  | VMap "(string \<times> string) list"
  | VList "(string \<times> string) list list"
  | VGrants "grant list"

record ResourceData =
  rd_id :: string
  rd_state :: "string \<rightharpoonup> val"
  rd_config :: "string \<rightharpoonup> val"

fun is_zero :: "val \<Rightarrow> bool" where
  "is_zero (VString s) = (s = [])"
| "is_zero (VBool b) = (\<not> b)"
| "is_zero (VSet xs) = (xs = [])"
| "is_zero (VMap kvs) = (kvs = [])"
| "is_zero (VList ms) = (ms = [])"
| "is_zero (VGrants gs) = (gs = [])"

fun val_equal :: "val \<Rightarrow> val \<Rightarrow> bool" where
  "val_equal (VSet xs) (VSet ys) = (set xs = set ys)"
| "val_equal (VGrants xs) (VGrants ys) = (set xs = set ys)"
| "val_equal (VMap xs) (VMap ys) =
     (\<forall>k \<in> set (map fst xs) \<union> set (map fst ys). map_of xs k = map_of ys k)"
| "val_equal v w = (v = w)"

text \<open>An attribute that was never set reads as the zero value of its type.\<close>

fun attr_equal :: "val option \<Rightarrow> val option \<Rightarrow> bool" where
  "attr_equal None None = True"
| "attr_equal None (Some w) = is_zero w"
| "attr_equal (Some v) None = is_zero v"
| "attr_equal (Some v) (Some w) = val_equal v w"

definition GetString :: "ResourceData \<Rightarrow> string \<Rightarrow> string" where
  "GetString d key = (case rd_config d key of Some (VString s) \<Rightarrow> s | _ \<Rightarrow> [])"

definition GetBool :: "ResourceData \<Rightarrow> string \<Rightarrow> bool" where
  "GetBool d key = (case rd_config d key of Some (VBool b) \<Rightarrow> b | _ \<Rightarrow> False)"

definition GetSet :: "ResourceData \<Rightarrow> string \<Rightarrow> string list" where
  "GetSet d key = (case rd_config d key of Some (VSet xs) \<Rightarrow> xs | _ \<Rightarrow> [])"

definition GetMap :: "ResourceData \<Rightarrow> string \<Rightarrow> (string \<times> string) list" where
  "GetMap d key = (case rd_config d key of Some (VMap kvs) \<Rightarrow> kvs | _ \<Rightarrow> [])"

definition GetGrants :: "ResourceData \<Rightarrow> string \<Rightarrow> grant list" where
  "GetGrants d key = (case rd_config d key of Some (VGrants gs) \<Rightarrow> gs | _ \<Rightarrow> [])"

text \<open>\<open>_, ok := d.GetOk(key)\<close>: the attribute is set to a value that is not the zero value.\<close>

definition GetOk :: "ResourceData \<Rightarrow> string \<Rightarrow> bool" where
  "GetOk d key = (case rd_config d key of None \<Rightarrow> False | Some v \<Rightarrow> \<not> is_zero v)"

definition HasChange :: "ResourceData \<Rightarrow> string \<Rightarrow> bool" where
  "HasChange d key = (\<not> attr_equal (rd_state d key) (rd_config d key))"

definition HasChanges :: "ResourceData \<Rightarrow> string list \<Rightarrow> bool" where
  "HasChanges d keys = list_ex (HasChange d) keys"



definition Set_attr :: "ResourceData \<Rightarrow> string \<Rightarrow> val \<Rightarrow> ResourceData" where
  "Set_attr d key v = d\<lparr>rd_config := (rd_config d)(key \<mapsto> v)\<rparr>"

text \<open>\<open>d.Set(key, p)\<close> with a pointer: a nil pointer leaves the attribute at its zero value.\<close>

definition Set_string_ptr :: "ResourceData \<Rightarrow> string \<Rightarrow> string option \<Rightarrow> ResourceData" where
  "Set_string_ptr d key p =
     (case p of None \<Rightarrow> d\<lparr>rd_config := (rd_config d)(key := None)\<rparr>
      | Some v \<Rightarrow> Set_attr d key (VString v))"

definition Set_bool_ptr :: "ResourceData \<Rightarrow> string \<Rightarrow> bool option \<Rightarrow> ResourceData" where
  "Set_bool_ptr d key p =
     (case p of None \<Rightarrow> d\<lparr>rd_config := (rd_config d)(key := None)\<rparr>
      | Some v \<Rightarrow> Set_attr d key (VBool v))"


definition expandStringSet :: "string list \<Rightarrow> string list" where
  "expandStringSet s = s"

definition flattenStringSet :: "string list \<Rightarrow> string list" where
  "flattenStringSet l = remdups l"

section \<open>The remote control plane and the trace of effects\<close>

subsection \<open>EC2 request and response structures\<close>

record PrivateDnsNameConfiguration =
  pdc_Name :: "string option"
  pdc_State :: "string option"
  pdc_Type :: "string option"
  pdc_Value :: "string option"

record ServiceConfiguration =
  sc_AcceptanceRequired :: "bool option"
  sc_AvailabilityZones :: "string list"
  sc_BaseEndpointDnsNames :: "string list"
  sc_GatewayLoadBalancerArns :: "string list"
  sc_ManagesVpcEndpoints :: "bool option"
  sc_NetworkLoadBalancerArns :: "string list"
  sc_PrivateDnsName :: "string option"
  sc_PrivateDnsNameConfiguration :: "PrivateDnsNameConfiguration option"
  sc_ServiceId :: "string option"
  sc_ServiceName :: "string option"
  sc_ServiceState :: "string option"
  sc_ServiceType :: "string option list"
  sc_Tags :: "(string \<times> string) list"

record CreateVpcEndpointServiceConfigurationInput =
  cr_AcceptanceRequired :: "bool option"
  cr_GatewayLoadBalancerArns :: "string list option"
  cr_NetworkLoadBalancerArns :: "string list option"
  cr_PrivateDnsName :: "string option"
  cr_TagSpecifications :: "(string \<times> (string \<times> string) list) list"

record ModifyVpcEndpointServiceConfigurationInput =
  mc_AcceptanceRequired :: "bool option"
  mc_AddGatewayLoadBalancerArns :: "string list option"
  mc_AddNetworkLoadBalancerArns :: "string list option"
  mc_PrivateDnsName :: "string option"
  mc_RemoveGatewayLoadBalancerArns :: "string list option"
  mc_RemoveNetworkLoadBalancerArns :: "string list option"
  mc_ServiceId :: "string option"

record ModifyVpcEndpointServicePermissionsInput =
  mp_AddAllowedPrincipals :: "string list option"
  mp_RemoveAllowedPrincipals :: "string list option"
  mp_ServiceId :: "string option"

text \<open>The \<open>ec2.ServiceState\<close> enumeration of the AWS SDK.\<close>

definition ServiceStatePending :: string where "ServiceStatePending = ''Pending''"
definition ServiceStateAvailable :: string where "ServiceStateAvailable = ''Available''"
definition ServiceStateDeleting :: string where "ServiceStateDeleting = ''Deleting''"
definition ServiceStateDeleted :: string where "ServiceStateDeleted = ''Deleted''"
definition ServiceStateFailed :: string where "ServiceStateFailed = ''Failed''"

subsection \<open>S3 request and response structures\<close>

text \<open>A \<open>time.Time\<close> instant, kept opaque.\<close>

type_synonym Time = int

record CopyObjectInput =
  co_ACL :: "string option"
  co_Bucket :: "string option"
  co_CacheControl :: "string option"
  co_ContentDisposition :: "string option"
  co_ContentEncoding :: "string option"
  co_ContentLanguage :: "string option"
  co_ContentType :: "string option"
  co_CopySource :: "string option"
  co_CopySourceIfMatch :: "string option"
  co_CopySourceIfModifiedSince :: "Time option"
  co_CopySourceIfNoneMatch :: "string option"
  co_CopySourceIfUnmodifiedSince :: "Time option"
  co_CopySourceSSECustomerAlgorithm :: "string option"
  co_CopySourceSSECustomerKey :: "string option"
  co_CopySourceSSECustomerKeyMD5 :: "string option"
  co_ExpectedBucketOwner :: "string option"
  co_ExpectedSourceBucketOwner :: "string option"
  co_Expires :: "Time option"
  co_GrantFullControl :: "string option"
  co_GrantRead :: "string option"
  co_GrantReadACP :: "string option"
  co_GrantWriteACP :: "string option"
  co_Key :: "string option"
  co_Metadata :: "(string \<times> string) list option"
  co_MetadataDirective :: "string option"
  co_ObjectLockLegalHoldStatus :: "string option"
  co_ObjectLockMode :: "string option"
  co_ObjectLockRetainUntilDate :: "Time option"
  co_RequestPayer :: "string option"
  co_SSECustomerAlgorithm :: "string option"
  co_SSECustomerKey :: "string option"
  co_SSECustomerKeyMD5 :: "string option"
  co_SSEKMSEncryptionContext :: "string option"
  co_SSEKMSKeyId :: "string option"
  co_ServerSideEncryption :: "string option"
  co_StorageClass :: "string option"
  co_TaggingDirective :: "string option"
  co_Tagging :: "string option"
  co_WebsiteRedirectLocation :: "string option"

record CopyObjectResult =
  cor_ETag :: "string option"
  cor_LastModified :: "Time option"

record CopyObjectOutput =
  cp_CopyObjectResult :: "CopyObjectResult option"
  cp_CopySourceVersionId :: "string option"
  cp_Expiration :: "string option"
  cp_RequestCharged :: "string option"
  cp_SSECustomerAlgorithm :: "string option"
  cp_SSECustomerKeyMD5 :: "string option"
  cp_SSEKMSEncryptionContext :: "string option"
  cp_SSEKMSKeyId :: "string option"
  cp_ServerSideEncryption :: "string option"
  cp_VersionId :: "string option"

record HeadObjectOutput =
  ho_CacheControl :: "string option"
  ho_ContentDisposition :: "string option"
  ho_ContentEncoding :: "string option"
  ho_ContentLanguage :: "string option"
  ho_ContentType :: "string option"
  ho_ETag :: "string option"
  ho_Metadata :: "(string \<times> string) list"
  ho_ObjectLockLegalHoldStatus :: "string option"
  ho_ObjectLockMode :: "string option"
  ho_ObjectLockRetainUntilDate :: "Time option"
  ho_SSEKMSKeyId :: "string option"
  ho_ServerSideEncryption :: "string option"
  ho_StorageClass :: "string option"
  ho_VersionId :: "string option"
  ho_WebsiteRedirectLocation :: "string option"

subsection \<open>Events, the system state and the client\<close>

text \<open>
  Every call that leaves the process is recorded, in order, with its request. The two
  local effects whose position in the sequence matters are recorded as well: \<open>d.SetId\<close>
  and the start of a \<open>WaitForState\<close> with its pending and target labels.
\<close>

datatype event =
    CreateVpcEndpointServiceConfigurationCall CreateVpcEndpointServiceConfigurationInput
  | DescribeVpcEndpointServiceConfigurationsCall "string list"
  | ModifyVpcEndpointServiceConfigurationCall ModifyVpcEndpointServiceConfigurationInput
  | ModifyVpcEndpointServicePermissionsCall ModifyVpcEndpointServicePermissionsInput
  | DescribeVpcEndpointServicePermissionsCall "string option"
  | DeleteVpcEndpointServiceConfigurationsCall "string list"
  | Ec2UpdateTagsCall string "(string \<times> string) list" "(string \<times> string) list"
  | HeadObjectCall "string option" "string option"
  | CopyObjectCall CopyObjectInput
  | S3ObjectListTagsCall string string
  | BucketObjectSetKMSCall "string option"
  | BucketObjectReadCall string
  | DeleteS3ObjectVersionCall string string string bool
  | DeleteAllS3ObjectVersionsCall string string bool bool
  | SetIdEvent string
  | WaitForStateEvent "string list" "string list"

record 'w sys =
  world :: 'w
  events :: "event list"

text \<open>
  \<open>meta.(*AWSClient)\<close>. The remote control plane is any deterministic state machine over
  a state \<open>'w\<close>: each operation maps a request and the remote state to a response and the
  next remote state. The client also carries what the two source files call but do not
  define (tag helpers, date conversion, URL escaping, the bucket object's read and KMS
  functions, the object deletion helpers), as parameters, and
  \<open>refreshes_within timeout w\<close>, the number of refresh calls that complete before a
  wait of \<open>timeout\<close> seconds started in remote state \<open>w\<close> expires.
\<close>

record 'w AWSClient =
  CreateVpcEndpointServiceConfiguration ::
    "CreateVpcEndpointServiceConfigurationInput \<Rightarrow> 'w \<Rightarrow> (error + ServiceConfiguration option) \<times> 'w"
  DescribeVpcEndpointServiceConfigurations ::
    "string list \<Rightarrow> 'w \<Rightarrow> (error + ServiceConfiguration list) \<times> 'w"
  ModifyVpcEndpointServiceConfiguration ::
    "ModifyVpcEndpointServiceConfigurationInput \<Rightarrow> 'w \<Rightarrow> error option \<times> 'w"
  ModifyVpcEndpointServicePermissions ::
    "ModifyVpcEndpointServicePermissionsInput \<Rightarrow> 'w \<Rightarrow> error option \<times> 'w"
  DescribeVpcEndpointServicePermissions ::
    "string option \<Rightarrow> 'w \<Rightarrow> (error + string option list) \<times> 'w"
  DeleteVpcEndpointServiceConfigurations :: "string list \<Rightarrow> 'w \<Rightarrow> error option \<times> 'w"
  Ec2UpdateTags ::
    "string \<Rightarrow> (string \<times> string) list \<Rightarrow> (string \<times> string) list \<Rightarrow> 'w \<Rightarrow> error option \<times> 'w"
  HeadObject :: "string option \<Rightarrow> string option \<Rightarrow> 'w \<Rightarrow> (error + HeadObjectOutput) \<times> 'w"
  CopyObject :: "CopyObjectInput \<Rightarrow> 'w \<Rightarrow> (error + CopyObjectOutput) \<times> 'w"
  S3ObjectListTags :: "string \<Rightarrow> string \<Rightarrow> 'w \<Rightarrow> (error + (string \<times> string) list) \<times> 'w"
  deleteS3ObjectVersion :: "string \<Rightarrow> string \<Rightarrow> string \<Rightarrow> bool \<Rightarrow> 'w \<Rightarrow> error option \<times> 'w"
  deleteAllS3ObjectVersions :: "string \<Rightarrow> string \<Rightarrow> bool \<Rightarrow> bool \<Rightarrow> 'w \<Rightarrow> error option \<times> 'w"
  resourceAwsS3BucketObjectSetKMS ::
    "ResourceData \<Rightarrow> string option \<Rightarrow> 'w \<Rightarrow> (error option \<times> ResourceData) \<times> 'w"
  resourceAwsS3BucketObjectRead :: "ResourceData \<Rightarrow> 'w \<Rightarrow> (error option \<times> ResourceData) \<times> 'w"
  partition :: string
  region :: string
  accountid :: string
  IgnoreTags :: "(string \<times> string) list \<Rightarrow> (string \<times> string) list"
  ec2TagSpecificationsFromMap ::
    "(string \<times> string) list \<Rightarrow> string \<Rightarrow> (string \<times> (string \<times> string) list) list"
  expandS3ObjectDate :: "string \<Rightarrow> Time option"
  flattenS3ObjectDate :: "Time option \<Rightarrow> string"
  QueryEscape :: "string \<Rightarrow> string"
  tagsUrlEncode :: "(string \<times> string) list \<Rightarrow> string"
  refreshes_within :: "nat \<Rightarrow> 'w \<Rightarrow> nat"

definition remote_call :: "event \<Rightarrow> ('w \<Rightarrow> 'r \<times> 'w) \<Rightarrow> 'w sys \<Rightarrow> 'r \<times> 'w sys" where
  "remote_call ev f s =
     (case f (world s) of (r, w') \<Rightarrow> (r, \<lparr>world = w', events = events s @ [ev]\<rparr>))"

definition SetId :: "string \<Rightarrow> ResourceData \<Rightarrow> 'w sys \<Rightarrow> ResourceData \<times> 'w sys" where
  "SetId v d s = (d\<lparr>rd_id := v\<rparr>, s\<lparr>events := events s @ [SetIdEvent v]\<rparr>)"

section \<open>The state poller\<close>

text \<open>
  What a refresh function returns first: \<open>nil\<close>, the boolean \<open>false\<close> (any non-nil value
  that is no configuration) or the service configuration.
\<close>

datatype refresh_result = RNil | RFalse | RCfg ServiceConfiguration

record 'w StateChangeConf =
  Pending :: "string list"
  Target :: "string list"
  Refresh :: "'w sys \<Rightarrow> (refresh_result \<times> string \<times> error option) \<times> 'w sys"
  Timeout :: nat
  Delay :: nat
  MinTimeout :: nat

text \<open>
  Modelled from the spec: \<open>StateChangeConf.WaitForState\<close> belongs to the plugin SDK
  (\<open>helper/resource\<close>) and is not among the source files. The loop follows section 4.1 of
  the specification: refresh, then (a) a label in Target succeeds with the latest
  snapshot, (b) a label in neither Pending nor Target fails at once, (c) the timeout
  fails with the last observed label; a refresh that itself returns an error ends the
  wait with that error before the label is classified. As in the SDK, a refresh that
  returns a nil snapshot without error counts as "not found" and is tolerated 20 times
  (\<open>NotFoundChecks\<close>). Time is not modelled: the first argument after the configuration
  is the number of refresh calls that still fit into the timeout.
\<close>

fun WaitForState_loop ::
  "'w StateChangeConf \<Rightarrow> nat \<Rightarrow> nat \<Rightarrow> string \<Rightarrow> 'w sys
     \<Rightarrow> (refresh_result \<times> error option) \<times> 'w sys" where
  "WaitForState_loop conf 0 notfoundTick lastState s =
     ((RNil, Some (TimeoutError lastState (Target conf))), s)"
| "WaitForState_loop conf (Suc n) notfoundTick lastState s =
     (case Refresh conf s of
        ((res, currentState, Some err), s1) \<Rightarrow> ((res, Some err), s1)
      | ((res, currentState, None), s1) \<Rightarrow>
          if res = RNil then
            (if Suc notfoundTick > 20
             then ((res, Some (NotFoundError (Suc notfoundTick))), s1)
             else WaitForState_loop conf n (Suc notfoundTick) currentState s1)
          else if currentState \<in> set (Target conf) then ((res, None), s1)
          else if currentState \<in> set (Pending conf) then
            WaitForState_loop conf n 0 currentState s1
          else if Pending conf \<noteq> [] then
            ((res, Some (UnexpectedStateError currentState (Target conf))), s1)
          else WaitForState_loop conf n 0 currentState s1)"

definition WaitForState ::
  "'w AWSClient \<Rightarrow> 'w StateChangeConf \<Rightarrow> 'w sys \<Rightarrow> (refresh_result \<times> error option) \<times> 'w sys" where
  "WaitForState meta conf s =
     WaitForState_loop conf (refreshes_within meta (Timeout conf) (world s)) 0 []
       (s\<lparr>events := events s @ [WaitForStateEvent (Pending conf) (Target conf)]\<rparr>)"

section \<open>The VPC endpoint service resource\<close>

definition vpcEndpointServiceStateRefresh ::
  "'w AWSClient \<Rightarrow> string \<Rightarrow> 'w sys \<Rightarrow> (refresh_result \<times> string \<times> error option) \<times> 'w sys" where
  "vpcEndpointServiceStateRefresh conn svcId s =
     (case remote_call (DescribeVpcEndpointServiceConfigurationsCall [svcId])
             (DescribeVpcEndpointServiceConfigurations conn [svcId]) s of
        (Inl err, s1) \<Rightarrow>
          if isAWSErr err ''InvalidVpcEndpointServiceId.NotFound'' []
          then ((RFalse, ServiceStateDeleted, None), s1)
          else ((RNil, [], Some err), s1)
      | (Inr [], s1) \<Rightarrow> ((RNil, [], Some (GoPanic ''index out of range'')), s1)
      | (Inr (svcCfg # rest), s1) \<Rightarrow>
          (let state = StringValue (sc_ServiceState svcCfg) in
           if state = ServiceStateFailed
           then ((RNil, state, Some (ErrorsNew ''VPC Endpoint Service is in a failed state'')), s1)
           else ((RCfg svcCfg, state, None), s1)))"

definition vpcEndpointServiceWaitUntilAvailable ::
  "'w AWSClient \<Rightarrow> ResourceData \<Rightarrow> 'w sys \<Rightarrow> error option \<times> 'w sys" where
  "vpcEndpointServiceWaitUntilAvailable conn d s =
     (let stateConf = \<lparr>Pending = [ServiceStatePending], Target = [ServiceStateAvailable],
            Refresh = vpcEndpointServiceStateRefresh conn (rd_id d),
            Timeout = 10 * 60, Delay = 5, MinTimeout = 5\<rparr>
      in case WaitForState conn stateConf s of
           ((res, Some err), s1) \<Rightarrow>
             (Some (wrapf ''Error waiting for VPC Endpoint Service %s to become available: %s''
                      [rd_id d] err), s1)
         | ((res, None), s1) \<Rightarrow> (None, s1))"

definition waitForVpcEndpointServiceDeletion ::
  "'w AWSClient \<Rightarrow> string \<Rightarrow> 'w sys \<Rightarrow> error option \<times> 'w sys" where
  "waitForVpcEndpointServiceDeletion conn serviceID s =
     (let stateConf = \<lparr>Pending = [ServiceStateAvailable, ServiceStateDeleting],
            Target = [ServiceStateDeleted],
            Refresh = vpcEndpointServiceStateRefresh conn serviceID,
            Timeout = 10 * 60, Delay = 5, MinTimeout = 5\<rparr>
      in case WaitForState conn stateConf s of ((res, err), s1) \<Rightarrow> (err, s1))"


definition flattenVpcEndpointServiceAllowedPrincipals :: "string option list \<Rightarrow> string list" where
  "flattenVpcEndpointServiceAllowedPrincipals allowedPrincipals =
     remdups (List.map_filter (\<lambda>principal. principal) allowedPrincipals)"

definition flattenPrivateDnsNameConfiguration ::
  "PrivateDnsNameConfiguration option \<Rightarrow> (string \<times> string) list list" where
  "flattenPrivateDnsNameConfiguration privateDnsNameConfiguration =
     (case privateDnsNameConfiguration of
        None \<Rightarrow> []
      | Some c \<Rightarrow>
          (let tfMap =
                 (case pdc_Name c of None \<Rightarrow> [] | Some v \<Rightarrow> [(''name'', v)]) @
                 (case pdc_State c of None \<Rightarrow> [] | Some v \<Rightarrow> [(''state'', v)]) @
                 (case pdc_Type c of None \<Rightarrow> [] | Some v \<Rightarrow> [(''type'', v)]) @
                 (case pdc_Value c of None \<Rightarrow> [] | Some v \<Rightarrow> [(''value'', v)])
           in if length tfMap = 0 then [] else [tfMap]))"

definition resourceAwsVpcEndpointServiceRead ::
  "'w AWSClient \<Rightarrow> ResourceData \<Rightarrow> 'w sys \<Rightarrow> error option \<times> ResourceData \<times> 'w sys" where
  "resourceAwsVpcEndpointServiceRead meta d s =
     (case vpcEndpointServiceStateRefresh meta (rd_id d) s of
        ((svcCfgRaw, state, err), s1) \<Rightarrow>
          (case (if state \<noteq> ServiceStateFailed then err else None) of
             Some e \<Rightarrow>
               (Some (wrapf ''error reading VPC Endpoint Service (%s): %s'' [rd_id d] e), d, s1)
           | None \<Rightarrow>
               if state \<in> set [ServiceStateDeleted, ServiceStateDeleting, ServiceStateFailed]
               then (case SetId [] d s1 of (d1, s2) \<Rightarrow> (None, d1, s2))
               else
                 (let arn = ''arn:'' @ partition meta @ '':'' @ ''ec2'' @ '':'' @ region meta @ '':''
                              @ accountid meta @ '':'' @ (''vpc-endpoint-service/'' @ rd_id d);
                      d1 = Set_attr d ''arn'' (VString arn)
                  in case svcCfgRaw of
                       RCfg svcCfg \<Rightarrow>
                         (let d2 = Set_bool_ptr d1 ''acceptance_required'' (sc_AcceptanceRequired svcCfg);
                              d3 = Set_attr d2 ''availability_zones''
                                     (VSet (flattenStringSet (sc_AvailabilityZones svcCfg)));
                              d4 = Set_attr d3 ''base_endpoint_dns_names''
                                     (VSet (flattenStringSet (sc_BaseEndpointDnsNames svcCfg)));
                              d5 = Set_attr d4 ''gateway_load_balancer_arns''
                                     (VSet (flattenStringSet (sc_GatewayLoadBalancerArns svcCfg)));
                              d6 = Set_bool_ptr d5 ''manages_vpc_endpoints'' (sc_ManagesVpcEndpoints svcCfg);
                              d7 = Set_attr d6 ''network_load_balancer_arns''
                                     (VSet (flattenStringSet (sc_NetworkLoadBalancerArns svcCfg)));
                              d8 = Set_string_ptr d7 ''private_dns_name'' (sc_PrivateDnsName svcCfg);
                              d9 = Set_string_ptr d8 ''service_name'' (sc_ServiceName svcCfg)
                          in case sc_ServiceType svcCfg of
                               [] \<Rightarrow> (Some (GoPanic ''index out of range''), d9, s1)
                             | serviceType # rest \<Rightarrow>
                                 (let d10 = Set_string_ptr d9 ''service_type'' serviceType;
                                      d11 = Set_string_ptr d10 ''state'' (sc_ServiceState svcCfg);
                                      d12 = Set_attr d11 ''tags'' (VMap (IgnoreTags meta (sc_Tags svcCfg)))
                                  in case remote_call (DescribeVpcEndpointServicePermissionsCall (Some (rd_id d12)))
                                            (DescribeVpcEndpointServicePermissions meta (Some (rd_id d12))) s1 of
                                       (Inl e, s2) \<Rightarrow>
                                         (Some (wrapf ''error reading VPC Endpoint Service permissions (%s): %s''
                                                  [rd_id d12] e), d12, s2)
                                     | (Inr allowedPrincipals, s2) \<Rightarrow>
                                         (let d13 = Set_attr d12 ''allowed_principals''
                                                      (VSet (flattenVpcEndpointServiceAllowedPrincipals allowedPrincipals));
                                              d14 = Set_attr d13 ''private_dns_name_configuration''
                                                      (VList (flattenPrivateDnsNameConfiguration
                                                                (sc_PrivateDnsNameConfiguration svcCfg)))
                                          in (None, d14, s2))))
                     | _ \<Rightarrow> (Some (GoPanic ''interface conversion''), d1, s1))))"

text \<open>The request that \<open>resourceAwsVpcEndpointServiceCreate\<close> builds in \<open>req\<close>.\<close>

definition Create_req ::
  "'w AWSClient \<Rightarrow> ResourceData \<Rightarrow> CreateVpcEndpointServiceConfigurationInput" where
  "Create_req meta d =
     (let req0 = \<lparr>cr_AcceptanceRequired = Some (GetBool d ''acceptance_required''),
                  cr_GatewayLoadBalancerArns = None,
                  cr_NetworkLoadBalancerArns = None,
                  cr_PrivateDnsName = None,
                  cr_TagSpecifications =
                    ec2TagSpecificationsFromMap meta (GetMap d ''tags'') ''vpc-endpoint-service''\<rparr>;
          req1 = (if GetOk d ''private_dns_name''
                  then req0\<lparr>cr_PrivateDnsName := Some (GetString d ''private_dns_name'')\<rparr> else req0);
          req2 = (if GetOk d ''gateway_load_balancer_arns''
                     \<and> length (GetSet d ''gateway_load_balancer_arns'') > 0
                  then req1\<lparr>cr_GatewayLoadBalancerArns :=
                         Some (expandStringSet (GetSet d ''gateway_load_balancer_arns''))\<rparr> else req1)
      in (if GetOk d ''network_load_balancer_arns''
             \<and> length (GetSet d ''network_load_balancer_arns'') > 0
          then req2\<lparr>cr_NetworkLoadBalancerArns :=
                 Some (expandStringSet (GetSet d ''network_load_balancer_arns''))\<rparr> else req2))"

text \<open>The request that Create builds in \<open>modifyPermReq\<close>.\<close>

definition Create_modifyPermReq :: "ResourceData \<Rightarrow> ModifyVpcEndpointServicePermissionsInput" where
  "Create_modifyPermReq d =
     \<lparr>mp_AddAllowedPrincipals = Some (expandStringSet (GetSet d ''allowed_principals'')),
      mp_RemoveAllowedPrincipals = None,
      mp_ServiceId = Some (rd_id d)\<rparr>"

definition resourceAwsVpcEndpointServiceCreate ::
  "'w AWSClient \<Rightarrow> ResourceData \<Rightarrow> 'w sys \<Rightarrow> error option \<times> ResourceData \<times> 'w sys" where
  "resourceAwsVpcEndpointServiceCreate meta d s =
     (case remote_call (CreateVpcEndpointServiceConfigurationCall (Create_req meta d))
             (CreateVpcEndpointServiceConfiguration meta (Create_req meta d)) s of
        (Inl err, s1) \<Rightarrow>
          (Some (wrapf ''Error creating VPC Endpoint Service configuration: %s'' [] err), d, s1)
      | (Inr None, s1) \<Rightarrow> (Some (GoPanic ''nil pointer dereference''), d, s1)
      | (Inr (Some serviceConfiguration), s1) \<Rightarrow>
          (case SetId (StringValue (sc_ServiceId serviceConfiguration)) d s1 of
             (d1, s2) \<Rightarrow>
               (case vpcEndpointServiceWaitUntilAvailable meta d1 s2 of
                  (Some err, s3) \<Rightarrow> (Some err, d1, s3)
                | (None, s3) \<Rightarrow>
                    if GetOk d1 ''allowed_principals''
                       \<and> length (GetSet d1 ''allowed_principals'') > 0
                    then
                      (case remote_call (ModifyVpcEndpointServicePermissionsCall (Create_modifyPermReq d1))
                              (ModifyVpcEndpointServicePermissions meta (Create_modifyPermReq d1)) s3 of
                         (Some err, s4) \<Rightarrow>
                           (Some (wrapf ''error adding VPC Endpoint Service permissions: %s'' [] err),
                            d1, s4)
                       | (None, s4) \<Rightarrow> resourceAwsVpcEndpointServiceRead meta d1 s4)
                    else resourceAwsVpcEndpointServiceRead meta d1 s3)))"







definition resourceAwsVpcEndpointServiceDelete ::
  "'w AWSClient \<Rightarrow> ResourceData \<Rightarrow> 'w sys \<Rightarrow> error option \<times> ResourceData \<times> 'w sys" where
  "resourceAwsVpcEndpointServiceDelete meta d s =
     (case remote_call (DeleteVpcEndpointServiceConfigurationsCall [rd_id d])
             (DeleteVpcEndpointServiceConfigurations meta [rd_id d]) s of
        (err, s1) \<Rightarrow>
          (case (case err of
                   None \<Rightarrow> None
                 | Some e \<Rightarrow>
                     if isAWSErr e ''InvalidVpcEndpointServiceId.NotFound'' [] then None
                     else Some (wrapf ''Error deleting VPC Endpoint Service: %s'' [] e)) of
             Some e \<Rightarrow> (Some e, d, s1)
           | None \<Rightarrow>
               (case waitForVpcEndpointServiceDeletion meta (rd_id d) s1 of
                  (Some e, s2) \<Rightarrow>
                    (Some (wrapf ''Error waiting for VPC Endpoint Service %s to delete: %s''
                             [rd_id d] e), d, s2)
                | (None, s2) \<Rightarrow> (None, d, s2))))"

section \<open>The S3 object copy resource\<close>

subsection \<open>String helpers of the Go standard library\<close>

definition TrimLeft :: "string \<Rightarrow> string \<Rightarrow> string" where
  "TrimLeft str cutset = dropWhile (\<lambda>c. c \<in> set cutset) str"

definition Trim :: "string \<Rightarrow> string \<Rightarrow> string" where
  "Trim str cutset =
     rev (dropWhile (\<lambda>c. c \<in> set cutset) (rev (dropWhile (\<lambda>c. c \<in> set cutset) str)))"

text \<open>
  \<open>regexp.MustCompile(`/+`).ReplaceAllString(str, repl)\<close> for a replacement without
  \<open>$\<close>: scanning from the left, each maximal run of slashes is replaced by \<open>repl\<close>.
\<close>

function ReplaceAllString_slashes :: "string \<Rightarrow> string \<Rightarrow> string" where
  "ReplaceAllString_slashes [] repl = []"
| "ReplaceAllString_slashes (c # cs) repl =
     (if c = CHR ''/''
      then repl @ ReplaceAllString_slashes (dropWhile (\<lambda>x. x = CHR ''/'') cs) repl
      else c # ReplaceAllString_slashes cs repl)"
  by pat_completeness auto
termination
  by (relation "measure (\<lambda>(str, repl). length str)")
     (auto simp: le_imp_less_Suc length_dropWhile_le)

fun Join :: "string list \<Rightarrow> string \<Rightarrow> string" where
  "Join [] sep = []"
| "Join [x] sep = x"
| "Join (x # y # ys) sep = x @ sep @ Join (y # ys) sep"

text \<open>\<open>strings.ToLower\<close> on the ASCII letters; other bytes are left as they are.\<close>

definition ToLower :: "string \<Rightarrow> string" where
  "ToLower str =
     map (\<lambda>c. let n = (of_char c :: nat) in if 65 \<le> n \<and> n \<le> 90 then char_of (n + 32) else c) str"

subsection \<open>Grants\<close>

record s3Grants =
  sg_FullControl :: "string option"
  sg_Read :: "string option"
  sg_ReadACP :: "string option"
  sg_WriteACP :: "string option"

text \<open>
  The grantee is built with a field set only for a non-empty attribute, then its type
  is dereferenced, and then the field that the type selects: each dereference of a
  field that was not set panics.
\<close>

definition expandS3Grant :: "grant \<Rightarrow> error + string" where
  "expandS3Grant tfMap =
     (let EmailAddress = (if grant_email tfMap \<noteq> [] then Some (grant_email tfMap) else None);
          ID = (if grant_id tfMap \<noteq> [] then Some (grant_id tfMap) else None);
          Type = (if grant_type tfMap \<noteq> [] then Some (grant_type tfMap) else None);
          URI = (if grant_uri tfMap \<noteq> [] then Some (grant_uri tfMap) else None)
      in case Type of
           None \<Rightarrow> Inl (GoPanic ''nil pointer dereference'')
         | Some t \<Rightarrow>
             if t = ''AmazonCustomerByEmail'' then
               (case EmailAddress of None \<Rightarrow> Inl (GoPanic ''nil pointer dereference'')
                | Some v \<Rightarrow> Inr (''emailaddress='' @ v))
             else if t = ''CanonicalUser'' then
               (case ID of None \<Rightarrow> Inl (GoPanic ''nil pointer dereference'')
                | Some v \<Rightarrow> Inr (''id='' @ v))
             else
               (case URI of None \<Rightarrow> Inl (GoPanic ''nil pointer dereference'')
                | Some v \<Rightarrow> Inr (''uri='' @ v)))"

text \<open>The four accumulators: full control, read, read ACP, write ACP.\<close>

type_synonym grant_lists = "string list \<times> string list \<times> string list \<times> string list"

fun expandS3Grants_perms :: "grant \<Rightarrow> string list \<Rightarrow> grant_lists \<Rightarrow> error + grant_lists" where
  "expandS3Grants_perms tfMap [] acc = Inr acc"
| "expandS3Grants_perms tfMap (perm # perms) (fc, rd, racp, wacp) =
     (case expandS3Grant tfMap of
        Inl e \<Rightarrow> Inl e
      | Inr v \<Rightarrow>
          if v \<noteq> [] then
            (if perm = ''FULL_CONTROL'' then expandS3Grants_perms tfMap perms (fc @ [v], rd, racp, wacp)
             else if perm = ''READ'' then expandS3Grants_perms tfMap perms (fc, rd @ [v], racp, wacp)
             else if perm = ''READ_ACP'' then expandS3Grants_perms tfMap perms (fc, rd, racp @ [v], wacp)
             else if perm = ''WRITE_ACP'' then expandS3Grants_perms tfMap perms (fc, rd, racp, wacp @ [v])
             else expandS3Grants_perms tfMap perms (fc, rd, racp, wacp))
          else expandS3Grants_perms tfMap perms (fc, rd, racp, wacp))"

fun expandS3Grants_loop :: "grant list \<Rightarrow> grant_lists \<Rightarrow> error + grant_lists" where
  "expandS3Grants_loop [] acc = Inr acc"
| "expandS3Grants_loop (tfMap # tfList) acc =
     (case expandS3Grants_perms tfMap (grant_permissions tfMap) acc of
        Inl e \<Rightarrow> Inl e
      | Inr acc1 \<Rightarrow> expandS3Grants_loop tfList acc1)"

definition expandS3Grants :: "grant list \<Rightarrow> error + s3Grants option" where
  "expandS3Grants tfList =
     (if length tfList = 0 then Inr None
      else
        (case expandS3Grants_loop tfList ([], [], [], []) of
           Inl e \<Rightarrow> Inl e
         | Inr (grantFullControl, grantRead, grantReadACP, grantWriteACP) \<Rightarrow>
             Inr (Some
               \<lparr>sg_FullControl =
                  (if length grantFullControl > 0 then Some (Join grantFullControl '','') else None),
                sg_Read = (if length grantRead > 0 then Some (Join grantRead '','') else None),
                sg_ReadACP = (if length grantReadACP > 0 then Some (Join grantReadACP '','') else None),
                sg_WriteACP =
                  (if length grantWriteACP > 0 then Some (Join grantWriteACP '','') else None)\<rparr>)))"

subsection \<open>The copy operation\<close>

text \<open>\<open>if v, ok := d.GetOk(key); ok { field = aws.String(v.(string)) }\<close> on a nil field.\<close>

definition GetOkString :: "ResourceData \<Rightarrow> string \<Rightarrow> string option" where
  "GetOkString d key = (if GetOk d key then Some (GetString d key) else None)"

definition GetOkDate :: "'w AWSClient \<Rightarrow> ResourceData \<Rightarrow> string \<Rightarrow> Time option" where
  "GetOkDate meta d key = (if GetOk d key then expandS3ObjectDate meta (GetString d key) else None)"

text \<open>
  The \<open>s3.CopyObjectInput\<close> that \<open>resourceAwsS3ObjectCopyDoCopy\<close> fills in. Every field
  starts nil and is assigned under its own \<open>GetOk\<close> test; the record gives each field
  its value after the last assignment. Two fields are assigned twice in the source:
  the ACL is set from \<open>acl\<close> and reset to nil by a non-empty \<open>grant\<close>; the server-side
  encryption is set to \<open>aws:kms\<close> by \<open>kms_key_id\<close> and then overwritten by
  \<open>server_side_encryption\<close>. The argument \<open>grants\<close> is the expanded grant block, when
  \<open>grant\<close> is set and not empty.
\<close>

definition DoCopy_input :: "'w AWSClient \<Rightarrow> ResourceData \<Rightarrow> s3Grants option \<Rightarrow> CopyObjectInput" where
  "DoCopy_input meta d grants =
     \<lparr>co_ACL = (case grants of Some g \<Rightarrow> None | None \<Rightarrow> GetOkString d ''acl''),
      co_Bucket = Some (GetString d ''bucket''),
      co_CacheControl = GetOkString d ''cache_control'',
      co_ContentDisposition = GetOkString d ''content_disposition'',
      co_ContentEncoding = GetOkString d ''content_encoding'',
      co_ContentLanguage = GetOkString d ''content_language'',
      co_ContentType = GetOkString d ''content_type'',
      co_CopySource = Some (QueryEscape meta (GetString d ''source'')),
      co_CopySourceIfMatch = GetOkString d ''copy_if_match'',
      co_CopySourceIfModifiedSince = GetOkDate meta d ''copy_if_modified_since'',
      co_CopySourceIfNoneMatch = GetOkString d ''copy_if_none_match'',
      co_CopySourceIfUnmodifiedSince = GetOkDate meta d ''copy_if_unmodified_since'',
      co_CopySourceSSECustomerAlgorithm = GetOkString d ''source_customer_algorithm'',
      co_CopySourceSSECustomerKey = GetOkString d ''source_customer_key'',
      co_CopySourceSSECustomerKeyMD5 = GetOkString d ''source_customer_key_md5'',
      co_ExpectedBucketOwner = GetOkString d ''expected_bucket_owner'',
      co_ExpectedSourceBucketOwner = GetOkString d ''expected_source_bucket_owner'',
      co_Expires = GetOkDate meta d ''expires'',
      co_GrantFullControl = (case grants of Some g \<Rightarrow> sg_FullControl g | None \<Rightarrow> None),
      co_GrantRead = (case grants of Some g \<Rightarrow> sg_Read g | None \<Rightarrow> None),
      co_GrantReadACP = (case grants of Some g \<Rightarrow> sg_ReadACP g | None \<Rightarrow> None),
      co_GrantWriteACP = (case grants of Some g \<Rightarrow> sg_WriteACP g | None \<Rightarrow> None),
      co_Key = Some (GetString d ''key''),
      co_Metadata = (if GetOk d ''metadata'' then Some (GetMap d ''metadata'') else None),
      co_MetadataDirective = GetOkString d ''metadata_directive'',
      co_ObjectLockLegalHoldStatus = GetOkString d ''object_lock_legal_hold_status'',
      co_ObjectLockMode = GetOkString d ''object_lock_mode'',
      co_ObjectLockRetainUntilDate = GetOkDate meta d ''object_lock_retain_until_date'',
      co_RequestPayer = GetOkString d ''request_payer'',
      co_SSECustomerAlgorithm = GetOkString d ''customer_algorithm'',
      co_SSECustomerKey = GetOkString d ''customer_key'',
      co_SSECustomerKeyMD5 = GetOkString d ''customer_key_md5'',
      co_SSEKMSEncryptionContext = GetOkString d ''kms_encryption_context'',
      co_SSEKMSKeyId = GetOkString d ''kms_key_id'',
      co_ServerSideEncryption =
        (if GetOk d ''server_side_encryption'' then Some (GetString d ''server_side_encryption'')
         else if GetOk d ''kms_key_id'' then Some ''aws:kms'' else None),
      co_StorageClass = GetOkString d ''storage_class'',
      co_TaggingDirective = GetOkString d ''tagging_directive'',
      co_Tagging =
        (if length (GetMap d ''tags'') > 0 then Some (tagsUrlEncode meta (GetMap d ''tags''))
         else None),
      co_WebsiteRedirectLocation = GetOkString d ''website_redirect''\<rparr>"

text \<open>
  The attributes that the copy writes back from the response. \<open>request_charged\<close> is a
  bool attribute given a string pointer: a nil pointer clears it, a string is refused
  by \<open>d.Set\<close>, whose error the source ignores.
\<close>

definition DoCopy_set_output :: "'w AWSClient \<Rightarrow> ResourceData \<Rightarrow> CopyObjectOutput \<Rightarrow> ResourceData" where
  "DoCopy_set_output meta d output =
     (let d1 = Set_string_ptr d ''customer_algorithm'' (cp_SSECustomerAlgorithm output);
          d2 = Set_string_ptr d1 ''customer_key_md5'' (cp_SSECustomerKeyMD5 output);
          d3 = (case cp_CopyObjectResult output of
                  None \<Rightarrow> d2
                | Some res \<Rightarrow>
                    Set_attr
                      (Set_attr d2 ''etag'' (VString (Trim (StringValue (cor_ETag res)) [CHR 0x22])))
                      ''last_modified'' (VString (flattenS3ObjectDate meta (cor_LastModified res))));
          d4 = Set_string_ptr d3 ''expiration'' (cp_Expiration output);
          d5 = Set_string_ptr d4 ''kms_encryption_context'' (cp_SSEKMSEncryptionContext output);
          d6 = Set_string_ptr d5 ''kms_key_id'' (cp_SSEKMSKeyId output);
          d7 = (case cp_RequestCharged output of
                  None \<Rightarrow> d6\<lparr>rd_config := (rd_config d6)(''request_charged'' := None)\<rparr>
                | Some v \<Rightarrow> d6);
          d8 = Set_string_ptr d7 ''server_side_encryption'' (cp_ServerSideEncryption output);
          d9 = Set_string_ptr d8 ''source_version_id'' (cp_CopySourceVersionId output)
      in Set_string_ptr d9 ''version_id'' (cp_VersionId output))"

text \<open>
  The grant block of the copy: when \<open>grant\<close> is set and not empty it is expanded, and
  the fields of the result are read through its pointer. The result is a panic, or
  the expanded grants, or nothing when \<open>grant\<close> is not set.
\<close>

definition DoCopy_grants :: "ResourceData \<Rightarrow> error + s3Grants option" where
  "DoCopy_grants d =
     (if GetOk d ''grant'' \<and> length (GetGrants d ''grant'') > 0
      then (case expandS3Grants (GetGrants d ''grant'') of
              Inl e \<Rightarrow> Inl e
            | Inr None \<Rightarrow> Inl (GoPanic ''nil pointer dereference'')
            | Inr (Some grants) \<Rightarrow> Inr (Some grants))
      else Inr None)"

definition resourceAwsS3ObjectCopyDoCopy ::
  "'w AWSClient \<Rightarrow> ResourceData \<Rightarrow> 'w sys \<Rightarrow> error option \<times> ResourceData \<times> 'w sys" where
  "resourceAwsS3ObjectCopyDoCopy meta d s =
     (case DoCopy_grants d of
        Inl e \<Rightarrow> (Some e, d, s)
      | Inr grants \<Rightarrow>
          (let input = DoCopy_input meta d grants
           in case remote_call (CopyObjectCall input) (CopyObject meta input) s of
                (Inl err, s1) \<Rightarrow>
                  (Some (wrapf ''Error copying S3 object (bucket: %s; key: %s; source: %s): %s''
                           [StringValue (co_Bucket input), StringValue (co_Key input),
                            StringValue (co_CopySource input)] err), d, s1)
              | (Inr output, s1) \<Rightarrow>
                  (let d1 = DoCopy_set_output meta d output
                   in case SetId (GetString d1 ''key'') d1 s1 of
                        (d2, s2) \<Rightarrow>
                          (case remote_call (BucketObjectReadCall (rd_id d2))
                                  (resourceAwsS3BucketObjectRead meta d2) s2 of
                             ((err, d3), s3) \<Rightarrow> (err, d3, s3)))))"

definition resourceAwsS3ObjectCopyCreate ::
  "'w AWSClient \<Rightarrow> ResourceData \<Rightarrow> 'w sys \<Rightarrow> error option \<times> ResourceData \<times> 'w sys" where
  "resourceAwsS3ObjectCopyCreate meta d s = resourceAwsS3ObjectCopyDoCopy meta d s"

subsection \<open>Read, Update and Delete\<close>

text \<open>The attributes that Read takes from the head response before the KMS step.\<close>

definition Read_set_head :: "'w AWSClient \<Rightarrow> ResourceData \<Rightarrow> HeadObjectOutput \<Rightarrow> ResourceData" where
  "Read_set_head meta d resp =
     (let d1 = Set_string_ptr d ''cache_control'' (ho_CacheControl resp);
          d2 = Set_string_ptr d1 ''content_disposition'' (ho_ContentDisposition resp);
          d3 = Set_string_ptr d2 ''content_encoding'' (ho_ContentEncoding resp);
          d4 = Set_string_ptr d3 ''content_language'' (ho_ContentLanguage resp);
          d5 = Set_string_ptr d4 ''content_type'' (ho_ContentType resp);
          metadata = map (\<lambda>(k, v). (ToLower k, v)) (ho_Metadata resp);
          d6 = Set_attr d5 ''metadata'' (VMap metadata);
          d7 = Set_string_ptr d6 ''version_id'' (ho_VersionId resp);
          d8 = Set_string_ptr d7 ''server_side_encryption'' (ho_ServerSideEncryption resp);
          d9 = Set_string_ptr d8 ''website_redirect'' (ho_WebsiteRedirectLocation resp);
          d10 = Set_string_ptr d9 ''object_lock_legal_hold_status'' (ho_ObjectLockLegalHoldStatus resp);
          d11 = Set_string_ptr d10 ''object_lock_mode'' (ho_ObjectLockMode resp)
      in Set_attr d11 ''object_lock_retain_until_date''
           (VString (flattenS3ObjectDate meta (ho_ObjectLockRetainUntilDate resp))))"

definition resourceAwsS3ObjectCopyRead ::
  "'w AWSClient \<Rightarrow> ResourceData \<Rightarrow> 'w sys \<Rightarrow> error option \<times> ResourceData \<times> 'w sys" where
  "resourceAwsS3ObjectCopyRead meta d s =
     (let bucket = GetString d ''bucket'';
          key = GetString d ''key''
      in case remote_call (HeadObjectCall (Some bucket) (Some key))
                (HeadObject meta (Some bucket) (Some key)) s of
           (Inl err, s1) \<Rightarrow>
             if ErrStatusCodeEquals err 404
             then (case SetId [] d s1 of (d1, s2) \<Rightarrow> (None, d1, s2))
             else (Some err, d, s1)
         | (Inr resp, s1) \<Rightarrow>
             (let d1 = Read_set_head meta d resp
              in case remote_call (BucketObjectSetKMSCall (ho_SSEKMSKeyId resp))
                        (resourceAwsS3BucketObjectSetKMS meta d1 (ho_SSEKMSKeyId resp)) s1 of
                   ((Some err, d2), s2) \<Rightarrow> (Some (wrapf ''bucket object KMS: %w'' [] err), d2, s2)
                 | ((None, d2), s2) \<Rightarrow>
                     (let d3 = Set_attr d2 ''etag'' (VString (Trim (StringValue (ho_ETag resp)) [CHR 0x22]));
                          d4 = Set_attr d3 ''storage_class'' (VString ''STANDARD'');
                          d5 = (case ho_StorageClass resp of None \<Rightarrow> d4
                                | Some v \<Rightarrow> Set_attr d4 ''storage_class'' (VString v))
                      in case remote_call (S3ObjectListTagsCall bucket key)
                                (S3ObjectListTags meta bucket key) s2 of
                           (Inl err, s3) \<Rightarrow>
                             (Some (wrapf ''error listing tags for S3 Bucket (%s) Object (%s): %w''
                                      [bucket, key] err), d5, s3)
                         | (Inr tags, s3) \<Rightarrow>
                             (None, Set_attr d5 ''tags'' (VMap (IgnoreTags meta tags)), s3))))"

text \<open>The keys of the first loop of Update, and its list \<open>args\<close>.\<close>

definition Update_copy_if_keys :: "string list" where
  "Update_copy_if_keys =
     [''copy_if_match'', ''copy_if_modified_since'', ''copy_if_none_match'',
      ''copy_if_unmodified_since'']"

definition Update_args :: "string list" where
  "Update_args =
     [''acl'', ''bucket'', ''cache_control'', ''content_disposition'', ''content_encoding'',
      ''content_language'', ''content_type'', ''customer_algorithm'', ''customer_key'',
      ''customer_key_md5'', ''expected_bucket_owner'', ''expected_source_bucket_owner'',
      ''expires'', ''grant'', ''key'', ''kms_encryption_context'', ''kms_key_id'', ''metadata'',
      ''metadata_directive'', ''object_lock_legal_hold_status'', ''object_lock_mode'',
      ''object_lock_retain_until_date'', ''request_payer'', ''server_side_encryption'',
      ''source'', ''source_customer_algorithm'', ''source_customer_key'',
      ''source_customer_key_md5'', ''storage_class'', ''tagging_directive'', ''tags'',
      ''website_redirect'']"

definition resourceAwsS3ObjectCopyUpdate ::
  "'w AWSClient \<Rightarrow> ResourceData \<Rightarrow> 'w sys \<Rightarrow> error option \<times> ResourceData \<times> 'w sys" where
  "resourceAwsS3ObjectCopyUpdate meta d s =
     (if list_ex (GetOk d) Update_copy_if_keys
      then resourceAwsS3ObjectCopyDoCopy meta d s
      else if HasChanges d Update_args
      then resourceAwsS3ObjectCopyDoCopy meta d s
      else (None, d, s))"

definition resourceAwsS3ObjectCopyDelete ::
  "'w AWSClient \<Rightarrow> ResourceData \<Rightarrow> 'w sys \<Rightarrow> error option \<times> ResourceData \<times> 'w sys" where
  "resourceAwsS3ObjectCopyDelete meta d s =
     (let bucket = GetString d ''bucket'';
          key0 = GetString d ''key'';
          key1 = TrimLeft key0 ''/'';
          key = ReplaceAllString_slashes key1 ''/''
      in case (if GetOk d ''version_id''
               then remote_call (DeleteAllS3ObjectVersionsCall bucket key (GetBool d ''force_destroy'') False)
                      (deleteAllS3ObjectVersions meta bucket key (GetBool d ''force_destroy'') False) s
               else remote_call (DeleteS3ObjectVersionCall bucket key [] False)
                      (deleteS3ObjectVersion meta bucket key [] False) s) of
           (Some err, s1) \<Rightarrow>
             (Some (wrapf ''error deleting S3 Bucket (%s) Object (%s): %w'' [bucket, key] err), d, s1)
         | (None, s1) \<Rightarrow> (None, d, s1))"

section \<open>Vocabulary for the properties\<close>





fun is_Delete :: "event \<Rightarrow> bool" where
  "is_Delete (DeleteVpcEndpointServiceConfigurationsCall ids) = True"
| "is_Delete (DeleteS3ObjectVersionCall bucket key version force) = True"
| "is_Delete (DeleteAllS3ObjectVersionsCall bucket key force ignore) = True"
| "is_Delete _ = False"

text \<open>
  The remote state after \<open>k\<close> describe calls for a service, and what the next describe
  call would show there: a state label, or the recognised not-found error.
\<close>

fun after_describes :: "'w AWSClient \<Rightarrow> string \<Rightarrow> nat \<Rightarrow> 'w \<Rightarrow> 'w" where
  "after_describes conn svcId 0 w = w"
| "after_describes conn svcId (Suc k) w =
     after_describes conn svcId k (snd (DescribeVpcEndpointServiceConfigurations conn [svcId] w))"

definition describe_label :: "'w AWSClient \<Rightarrow> string \<Rightarrow> 'w \<Rightarrow> string option" where
  "describe_label conn svcId w =
     (case fst (DescribeVpcEndpointServiceConfigurations conn [svcId] w) of
        Inr (svcCfg # rest) \<Rightarrow> Some (StringValue (sc_ServiceState svcCfg))
      | _ \<Rightarrow> None)"

definition describe_not_found :: "'w AWSClient \<Rightarrow> string \<Rightarrow> 'w \<Rightarrow> bool" where
  "describe_not_found conn svcId w =
     (case fst (DescribeVpcEndpointServiceConfigurations conn [svcId] w) of
        Inl err \<Rightarrow> isAWSErr err ''InvalidVpcEndpointServiceId.NotFound'' []
      | Inr cfgs \<Rightarrow> False)"

subsection \<open>A scripted remote for the examples\<close>

text \<open>
  A service configuration that shows a given state label, and a remote whose state
  counts the describe calls made so far: describe call number \<open>w\<close> answers \<open>script w\<close>,
  every other operation succeeds, and each wait has room for \<open>polls\<close> refresh calls.
\<close>

definition cfg_in_state :: "string \<Rightarrow> ServiceConfiguration" where
  "cfg_in_state label =
     \<lparr>sc_AcceptanceRequired = Some False,
      sc_AvailabilityZones = [],
      sc_BaseEndpointDnsNames = [],
      sc_GatewayLoadBalancerArns = [],
      sc_ManagesVpcEndpoints = Some False,
      sc_NetworkLoadBalancerArns = [],
      sc_PrivateDnsName = None,
      sc_PrivateDnsNameConfiguration = None,
      sc_ServiceId = Some ''vpce-svc-1'',
      sc_ServiceName = None,
      sc_ServiceState = Some label,
      sc_ServiceType = [Some ''Interface''],
      sc_Tags = []\<rparr>"

definition empty_head :: HeadObjectOutput where
  "empty_head =
     \<lparr>ho_CacheControl = None, ho_ContentDisposition = None, ho_ContentEncoding = None,
      ho_ContentLanguage = None, ho_ContentType = None, ho_ETag = None, ho_Metadata = [],
      ho_ObjectLockLegalHoldStatus = None, ho_ObjectLockMode = None,
      ho_ObjectLockRetainUntilDate = None, ho_SSEKMSKeyId = None,
      ho_ServerSideEncryption = None, ho_StorageClass = None, ho_VersionId = None,
      ho_WebsiteRedirectLocation = None\<rparr>"

definition empty_copy_output :: CopyObjectOutput where
  "empty_copy_output =
     \<lparr>cp_CopyObjectResult = None, cp_CopySourceVersionId = None, cp_Expiration = None,
      cp_RequestCharged = None, cp_SSECustomerAlgorithm = None, cp_SSECustomerKeyMD5 = None,
      cp_SSEKMSEncryptionContext = None, cp_SSEKMSKeyId = None, cp_ServerSideEncryption = None,
      cp_VersionId = None\<rparr>"

definition scripted_client ::
  "(nat \<Rightarrow> error + ServiceConfiguration list) \<Rightarrow> nat \<Rightarrow> nat AWSClient" where
  "scripted_client script polls =
     \<lparr>CreateVpcEndpointServiceConfiguration = (\<lambda>req w. (Inr (Some (cfg_in_state ''Pending'')), w)),
      DescribeVpcEndpointServiceConfigurations = (\<lambda>ids w. (script w, Suc w)),
      ModifyVpcEndpointServiceConfiguration = (\<lambda>req w. (None, w)),
      ModifyVpcEndpointServicePermissions = (\<lambda>req w. (None, w)),
      DescribeVpcEndpointServicePermissions = (\<lambda>svcId w. (Inr [], w)),
      DeleteVpcEndpointServiceConfigurations = (\<lambda>ids w. (None, w)),
      Ec2UpdateTags = (\<lambda>svcId ov nv w. (None, w)),
      HeadObject = (\<lambda>bucket key w. (Inr empty_head, w)),
      CopyObject = (\<lambda>input w. (Inr empty_copy_output, w)),
      S3ObjectListTags = (\<lambda>bucket key w. (Inr [], w)),
      deleteS3ObjectVersion = (\<lambda>bucket key version force w. (None, w)),
      deleteAllS3ObjectVersions = (\<lambda>bucket key force ignore w. (None, w)),
      resourceAwsS3BucketObjectSetKMS = (\<lambda>d keyId w. ((None, d), w)),
      resourceAwsS3BucketObjectRead = (\<lambda>d w. ((None, d), w)),
      partition = ''aws'',
      region = ''us-east-1'',
      accountid = ''123456789012'',
      IgnoreTags = (\<lambda>tags. tags),
      ec2TagSpecificationsFromMap = (\<lambda>tags resourceType. []),
      expandS3ObjectDate = (\<lambda>str. None),
      flattenS3ObjectDate = (\<lambda>t. []),
      QueryEscape = (\<lambda>str. str),
      tagsUrlEncode = (\<lambda>tags. []),
      refreshes_within = (\<lambda>timeout w. polls)\<rparr>"

definition not_found_error :: error where
  "not_found_error = AWSErr ''InvalidVpcEndpointServiceId.NotFound'' ''The service does not exist'' (Some 400)"

text \<open>Two pending answers, then a failed service.\<close>

definition script_pending_failed :: "nat \<Rightarrow> error + ServiceConfiguration list" where
  "script_pending_failed w = (if w < 2 then Inr [cfg_in_state ''Pending''] else Inr [cfg_in_state ''Failed''])"

text \<open>A service that is still deleting at the first answer and gone afterwards.\<close>

definition script_deleting_gone :: "nat \<Rightarrow> error + ServiceConfiguration list" where
  "script_deleting_gone w = (if w < 1 then Inr [cfg_in_state ''Deleting''] else Inl not_found_error)"


text \<open>A service that is gone from the first answer on.\<close>

definition script_gone :: "nat \<Rightarrow> error + ServiceConfiguration list" where
  "script_gone w = Inl not_found_error"

text \<open>Variants of the scripted remote whose delete call, or head call, fails.\<close>

definition client_delete_fails :: "error \<Rightarrow> nat AWSClient" where
  "client_delete_fails e =
     (scripted_client script_gone 5)
       \<lparr>DeleteVpcEndpointServiceConfigurations := (\<lambda>ids w. (Some e, w))\<rparr>"

definition client_head_fails :: "error \<Rightarrow> nat AWSClient" where
  "client_head_fails e =
     (scripted_client script_gone 5)\<lparr>HeadObject := (\<lambda>bucket key w. (Inl e, w))\<rparr>"

definition service_data :: ResourceData where
  "service_data = \<lparr>rd_id = ''vpce-svc-1'', rd_state = Map.empty, rd_config = Map.empty\<rparr>"

definition object_data :: ResourceData where
  "object_data =
     \<lparr>rd_id = ''dir/file'',
      rd_state = [''bucket'' \<mapsto> VString ''b'', ''key'' \<mapsto> VString ''dir/file''],
      rd_config = [''bucket'' \<mapsto> VString ''b'', ''key'' \<mapsto> VString ''dir/file'']\<rparr>"

text \<open>The key that \<open>resourceAwsS3ObjectCopyDelete\<close> computes from the \<open>key\<close> attribute.\<close>

definition delete_key :: "string \<Rightarrow> string" where
  "delete_key key = ReplaceAllString_slashes (TrimLeft key ''/'') ''/''"

fun has_double_slash :: "string \<Rightarrow> bool" where
  "has_double_slash (a # b # cs) = ((a = CHR ''/'' \<and> b = CHR ''/'') \<or> has_double_slash (b # cs))"
| "has_double_slash cs = False"

definition starts_with_slash :: "string \<Rightarrow> bool" where
  "starts_with_slash str = (case str of [] \<Rightarrow> False | c # cs \<Rightarrow> c = CHR ''/'')"

definition slashed_object_data :: ResourceData where
  "slashed_object_data =
     \<lparr>rd_id = ''//dir///file'',
      rd_state = [''bucket'' \<mapsto> VString ''b'', ''key'' \<mapsto> VString ''//dir///file''],
      rd_config = [''bucket'' \<mapsto> VString ''b'', ''key'' \<mapsto> VString ''//dir///file'']\<rparr>"

definition conditional_object_data :: ResourceData where
  "conditional_object_data =
     \<lparr>rd_id = ''dir/file'',
      rd_state = [''bucket'' \<mapsto> VString ''b'', ''key'' \<mapsto> VString ''dir/file'',
                  ''copy_if_match'' \<mapsto> VString ''etag-1''],
      rd_config = [''bucket'' \<mapsto> VString ''b'', ''key'' \<mapsto> VString ''dir/file'',
                   ''copy_if_match'' \<mapsto> VString ''etag-1'']\<rparr>"



section \<open>The diff computation\<close>





section \<open>Remote calls, the refresh function and the poller\<close>

lemma remote_call_eq:
  "remote_call ev f s = (fst (f (world s)), \<lparr>world = snd (f (world s)), events = events s @ [ev]\<rparr>)"
  by (simp add: remote_call_def split: prod.splits)

lemma refresh_snd:
  "snd (vpcEndpointServiceStateRefresh conn svcId s) =
     \<lparr>world = snd (DescribeVpcEndpointServiceConfigurations conn [svcId] (world s)),
      events = events s @ [DescribeVpcEndpointServiceConfigurationsCall [svcId]]\<rparr>"
  by (simp add: vpcEndpointServiceStateRefresh_def remote_call_eq Let_def
      split: prod.splits sum.splits list.splits)

lemma refresh_failed:
  "describe_label conn svcId (world s) = Some ServiceStateFailed \<Longrightarrow>
   fst (vpcEndpointServiceStateRefresh conn svcId s) =
     (RNil, ServiceStateFailed, Some (ErrorsNew ''VPC Endpoint Service is in a failed state''))"
  by (auto simp: vpcEndpointServiceStateRefresh_def remote_call_eq Let_def describe_label_def
      split: prod.splits sum.splits list.splits)

lemma refresh_label:
  "describe_label conn svcId (world s) = Some l \<Longrightarrow> l \<noteq> ServiceStateFailed \<Longrightarrow>
   \<exists>cfg. fst (vpcEndpointServiceStateRefresh conn svcId s) = (RCfg cfg, l, None)"
  by (auto simp: vpcEndpointServiceStateRefresh_def remote_call_eq Let_def describe_label_def
      split: prod.splits sum.splits list.splits)

lemma refresh_not_found:
  "describe_not_found conn svcId (world s) \<Longrightarrow>
   fst (vpcEndpointServiceStateRefresh conn svcId s) = (RFalse, ServiceStateDeleted, None)"
  by (auto simp: vpcEndpointServiceStateRefresh_def remote_call_eq Let_def describe_not_found_def
      split: prod.splits sum.splits list.splits)

lemma loop_success_at_target:
  "WaitForState_loop conf n tick lst s = ((res, None), s') \<Longrightarrow>
   \<exists>s0 st. Refresh conf s0 = ((res, st, None), s') \<and> st \<in> set (Target conf)"
proof (induction n arbitrary: tick lst s)
  case 0
  then show ?case by simp
next
  case (Suc n)
  then show ?case
    by (auto split: prod.splits option.splits if_splits)
qed

lemma loop_trace:
  assumes "Refresh conf = vpcEndpointServiceStateRefresh conn svcId"
  shows "\<exists>k\<le>n. snd (WaitForState_loop conf n tick lst s) =
     \<lparr>world = after_describes conn svcId k (world s),
      events = events s @ replicate k (DescribeVpcEndpointServiceConfigurationsCall [svcId])\<rparr>"
proof (induction n arbitrary: tick lst s)
  case 0
  then show ?case by simp
next
  case (Suc n)
  obtain res st err s1 where r: "vpcEndpointServiceStateRefresh conn svcId s = ((res, st, err), s1)"
    by (metis prod_cases3 surj_pair)
  then have s1: "s1 = \<lparr>world = snd (DescribeVpcEndpointServiceConfigurations conn [svcId] (world s)),
      events = events s @ [DescribeVpcEndpointServiceConfigurationsCall [svcId]]\<rparr>"
    using refresh_snd[of conn svcId s] by simp
  have stop: "\<exists>k\<le>Suc n. s1 =
     \<lparr>world = after_describes conn svcId k (world s),
      events = events s @ replicate k (DescribeVpcEndpointServiceConfigurationsCall [svcId])\<rparr>"
    by (rule exI[of _ 1]) (simp add: s1)
  have cont: "\<exists>k\<le>Suc n. snd (WaitForState_loop conf n t l s1) =
     \<lparr>world = after_describes conn svcId k (world s),
      events = events s @ replicate k (DescribeVpcEndpointServiceConfigurationsCall [svcId])\<rparr>" for t l
  proof -
    from Suc.IH[of t l s1] obtain k where k: "k \<le> n"
      "snd (WaitForState_loop conf n t l s1) =
        \<lparr>world = after_describes conn svcId k (world s1),
         events = events s1 @ replicate k (DescribeVpcEndpointServiceConfigurationsCall [svcId])\<rparr>"
      by blast
    show ?thesis
      by (rule exI[of _ "Suc k"]) (use k in \<open>simp add: s1 replicate_append_same\<close>)
  qed
  show ?case
    using stop cont by (simp add: assms r split: option.splits)
qed

lemma loop_step_failed:
  assumes "Refresh conf = vpcEndpointServiceStateRefresh conn svcId"
    and "describe_label conn svcId (world s) = Some ServiceStateFailed"
  shows "WaitForState_loop conf (Suc m) tick lst s =
     ((RNil, Some (ErrorsNew ''VPC Endpoint Service is in a failed state'')),
      \<lparr>world = snd (DescribeVpcEndpointServiceConfigurations conn [svcId] (world s)),
       events = events s @ [DescribeVpcEndpointServiceConfigurationsCall [svcId]]\<rparr>)"
  using refresh_failed[OF assms(2)] refresh_snd[of conn svcId s]
  by (cases "vpcEndpointServiceStateRefresh conn svcId s") (auto simp: assms(1))

lemma loop_step_not_found:
  assumes "Refresh conf = vpcEndpointServiceStateRefresh conn svcId"
    and "describe_not_found conn svcId (world s)"
    and "ServiceStateDeleted \<in> set (Target conf)"
  shows "WaitForState_loop conf (Suc m) tick lst s =
     ((RFalse, None),
      \<lparr>world = snd (DescribeVpcEndpointServiceConfigurations conn [svcId] (world s)),
       events = events s @ [DescribeVpcEndpointServiceConfigurationsCall [svcId]]\<rparr>)"
  using refresh_not_found[OF assms(2)] refresh_snd[of conn svcId s] assms(3)
  by (cases "vpcEndpointServiceStateRefresh conn svcId s") (auto simp: assms(1))

lemma loop_step_pending:
  assumes "Refresh conf = vpcEndpointServiceStateRefresh conn svcId"
    and "describe_label conn svcId (world s) = Some l"
    and "l \<noteq> ServiceStateFailed" "l \<notin> set (Target conf)" "l \<in> set (Pending conf)"
  shows "WaitForState_loop conf (Suc m) tick lst s =
     WaitForState_loop conf m 0 l
      \<lparr>world = snd (DescribeVpcEndpointServiceConfigurations conn [svcId] (world s)),
       events = events s @ [DescribeVpcEndpointServiceConfigurationsCall [svcId]]\<rparr>"
  using refresh_label[OF assms(2,3)] refresh_snd[of conn svcId s] assms(4,5)
  by (cases "vpcEndpointServiceStateRefresh conn svcId s") (auto simp: assms(1))

lemma loop_through_pending:
  assumes R: "Refresh conf = vpcEndpointServiceStateRefresh conn svcId"
    and pend: "\<forall>i<k. \<exists>l. describe_label conn svcId (after_describes conn svcId i (world s)) = Some l
                 \<and> l \<noteq> ServiceStateFailed \<and> l \<notin> set (Target conf) \<and> l \<in> set (Pending conf)"
    and stop: "\<And>t l s1. world s1 = after_describes conn svcId k (world s) \<Longrightarrow>
                 WaitForState_loop conf (Suc m) t l s1 =
                   (out, \<lparr>world = snd (DescribeVpcEndpointServiceConfigurations conn [svcId] (world s1)),
                         events = events s1 @ [DescribeVpcEndpointServiceConfigurationsCall [svcId]]\<rparr>)"
  shows "WaitForState_loop conf (k + Suc m) tick lst s =
     (out, \<lparr>world = after_describes conn svcId (Suc k) (world s),
           events = events s @ replicate (Suc k) (DescribeVpcEndpointServiceConfigurationsCall [svcId])\<rparr>)"
  using pend stop
proof (induction k arbitrary: s tick lst)
  case 0
  then show ?case by simp
next
  case (Suc k)
  let ?s1 = "\<lparr>world = snd (DescribeVpcEndpointServiceConfigurations conn [svcId] (world s)),
       events = events s @ [DescribeVpcEndpointServiceConfigurationsCall [svcId]]\<rparr>"
  from Suc.prems(1) obtain l where l:
    "describe_label conn svcId (world s) = Some l" "l \<noteq> ServiceStateFailed"
    "l \<notin> set (Target conf)" "l \<in> set (Pending conf)"
    by force
  have step: "WaitForState_loop conf (Suc k + Suc m) tick lst s =
     WaitForState_loop conf (k + Suc m) 0 l ?s1"
    using loop_step_pending[OF R l, of "k + Suc m" tick lst] by simp
  have pend': "\<forall>i<k. \<exists>l. describe_label conn svcId (after_describes conn svcId i (world ?s1)) = Some l
                 \<and> l \<noteq> ServiceStateFailed \<and> l \<notin> set (Target conf) \<and> l \<in> set (Pending conf)"
  proof (intro allI impI)
    fix i assume "i < k"
    then have "Suc i < Suc k" by simp
    with Suc.prems(1) show "\<exists>l. describe_label conn svcId (after_describes conn svcId i (world ?s1)) = Some l
                 \<and> l \<noteq> ServiceStateFailed \<and> l \<notin> set (Target conf) \<and> l \<in> set (Pending conf)"
      by (metis after_describes.simps(2) sys.select_convs(1))
  qed
  have stop': "\<And>t l s1. world s1 = after_describes conn svcId k (world ?s1) \<Longrightarrow>
                 WaitForState_loop conf (Suc m) t l s1 =
                   (out, \<lparr>world = snd (DescribeVpcEndpointServiceConfigurations conn [svcId] (world s1)),
                         events = events s1 @ [DescribeVpcEndpointServiceConfigurationsCall [svcId]]\<rparr>)"
    using Suc.prems(2) by simp
  have "WaitForState_loop conf (k + Suc m) 0 l ?s1 =
     (out, \<lparr>world = after_describes conn svcId (Suc k) (world ?s1),
           events = events ?s1 @ replicate (Suc k) (DescribeVpcEndpointServiceConfigurationsCall [svcId])\<rparr>)"
    using Suc.IH[OF pend' stop'] by simp
  then show ?case
    using step by simp
qed

section \<open>Failure and disappearance during polling\<close>

text \<open>
  C4. When a refresh observes the \<open>failed\<close> label, the refresh function returns a
  non-nil error with that label, and the poller stops at that refresh with this
  error whatever its Pending and Target lists are and however many refreshes are
  left before the timeout. For a refresh sequence pending, ..., pending, failed
  observed before the timeout, the wait for availability reports the failure-state
  error (not a timeout error) after exactly those refreshes.
\<close>

theorem failed_label_short_circuits_polling:
  assumes pend: "\<forall>i<k. describe_label conn (rd_id d) (after_describes conn (rd_id d) i (world s))
                          = Some ServiceStatePending"
    and fail: "describe_label conn (rd_id d) (after_describes conn (rd_id d) k (world s))
                 = Some ServiceStateFailed"
    and budget: "k < refreshes_within conn (10 * 60) (world s)"
  shows "(\<forall>s1. world s1 = after_describes conn (rd_id d) k (world s) \<longrightarrow>
            fst (vpcEndpointServiceStateRefresh conn (rd_id d) s1) =
              (RNil, ServiceStateFailed,
               Some (ErrorsNew ''VPC Endpoint Service is in a failed state''))) \<and>
         (\<forall>P T tmo dl mt n tick lst s1.
            world s1 = after_describes conn (rd_id d) k (world s) \<longrightarrow>
            fst (WaitForState_loop
                   \<lparr>Pending = P, Target = T,
                    Refresh = vpcEndpointServiceStateRefresh conn (rd_id d),
                    Timeout = tmo, Delay = dl, MinTimeout = mt\<rparr> (Suc n) tick lst s1) =
              (RNil, Some (ErrorsNew ''VPC Endpoint Service is in a failed state''))) \<and>
         vpcEndpointServiceWaitUntilAvailable conn d s =
           (Some (Errorf ''Error waiting for VPC Endpoint Service %s to become available: %s''
                    [rd_id d] (ErrorsNew ''VPC Endpoint Service is in a failed state'')),
            \<lparr>world = after_describes conn (rd_id d) (Suc k) (world s),
             events = events s @
               WaitForStateEvent [ServiceStatePending] [ServiceStateAvailable] #
               replicate (Suc k) (DescribeVpcEndpointServiceConfigurationsCall [rd_id d])\<rparr>)"
proof (intro conjI allI impI)
  fix s1 :: "'a sys"
  assume "world s1 = after_describes conn (rd_id d) k (world s)"
  with fail show "fst (vpcEndpointServiceStateRefresh conn (rd_id d) s1) =
              (RNil, ServiceStateFailed,
               Some (ErrorsNew ''VPC Endpoint Service is in a failed state''))"
    by (simp add: refresh_failed)
next
  fix P T tmo dl mt n tick lst and s1 :: "'a sys"
  assume w: "world s1 = after_describes conn (rd_id d) k (world s)"
  let ?conf = "\<lparr>Pending = P, Target = T,
                    Refresh = vpcEndpointServiceStateRefresh conn (rd_id d),
                    Timeout = tmo, Delay = dl, MinTimeout = mt\<rparr>"
  have "Refresh ?conf = vpcEndpointServiceStateRefresh conn (rd_id d)"
    by simp
  from loop_step_failed[OF this, of s1 n tick lst] fail w
  show "fst (WaitForState_loop ?conf (Suc n) tick lst s1) =
              (RNil, Some (ErrorsNew ''VPC Endpoint Service is in a failed state''))"
    by simp
next
  let ?conf = "\<lparr>Pending = [ServiceStatePending], Target = [ServiceStateAvailable],
                 Refresh = vpcEndpointServiceStateRefresh conn (rd_id d),
                 Timeout = 10 * 60, Delay = 5, MinTimeout = 5\<rparr>"
  let ?s0 = "s\<lparr>events := events s @
                 [WaitForStateEvent [ServiceStatePending] [ServiceStateAvailable]]\<rparr>"
  have R: "Refresh ?conf = vpcEndpointServiceStateRefresh conn (rd_id d)"
    by simp
  obtain m where m: "refreshes_within conn (10 * 60) (world s) = k + Suc m"
    using budget less_imp_Suc_add by (metis add_Suc_right)
  have pend': "\<forall>i<k. \<exists>l. describe_label conn (rd_id d) (after_describes conn (rd_id d) i (world ?s0)) = Some l
                 \<and> l \<noteq> ServiceStateFailed \<and> l \<notin> set (Target ?conf) \<and> l \<in> set (Pending ?conf)"
    using pend
    by (simp add: ServiceStatePending_def ServiceStateFailed_def ServiceStateAvailable_def)
  have stop: "\<And>t l s1. world s1 = after_describes conn (rd_id d) k (world ?s0) \<Longrightarrow>
                 WaitForState_loop ?conf (Suc m) t l s1 =
                   ((RNil, Some (ErrorsNew ''VPC Endpoint Service is in a failed state'')),
                    \<lparr>world = snd (DescribeVpcEndpointServiceConfigurations conn [rd_id d] (world s1)),
                     events = events s1 @ [DescribeVpcEndpointServiceConfigurationsCall [rd_id d]]\<rparr>)"
    using loop_step_failed[OF R] fail by simp
  have "WaitForState_loop ?conf (k + Suc m) 0 [] ?s0 =
     ((RNil, Some (ErrorsNew ''VPC Endpoint Service is in a failed state'')),
      \<lparr>world = after_describes conn (rd_id d) (Suc k) (world ?s0),
       events = events ?s0 @
         replicate (Suc k) (DescribeVpcEndpointServiceConfigurationsCall [rd_id d])\<rparr>)"
    by (rule loop_through_pending[OF R pend' stop])
  then show "vpcEndpointServiceWaitUntilAvailable conn d s =
           (Some (Errorf ''Error waiting for VPC Endpoint Service %s to become available: %s''
                    [rd_id d] (ErrorsNew ''VPC Endpoint Service is in a failed state'')),
            \<lparr>world = after_describes conn (rd_id d) (Suc k) (world s),
             events = events s @
               WaitForStateEvent [ServiceStatePending] [ServiceStateAvailable] #
               replicate (Suc k) (DescribeVpcEndpointServiceConfigurationsCall [rd_id d])\<rparr>)"
    using m by (simp add: vpcEndpointServiceWaitUntilAvailable_def WaitForState_def)
qed

theorem failed_label_short_circuits_polling_witness:
  "describe_label (scripted_client script_pending_failed 5) ''vpce-svc-1''
     (after_describes (scripted_client script_pending_failed 5) ''vpce-svc-1'' 0 0)
     = Some ServiceStatePending \<and>
   describe_label (scripted_client script_pending_failed 5) ''vpce-svc-1''
     (after_describes (scripted_client script_pending_failed 5) ''vpce-svc-1'' 1 0)
     = Some ServiceStatePending \<and>
   describe_label (scripted_client script_pending_failed 5) ''vpce-svc-1''
     (after_describes (scripted_client script_pending_failed 5) ''vpce-svc-1'' 2 0)
     = Some ServiceStateFailed \<and>
   2 < refreshes_within (scripted_client script_pending_failed 5) (10 * 60) 0 \<and>
   vpcEndpointServiceWaitUntilAvailable (scripted_client script_pending_failed 5)
     \<lparr>rd_id = ''vpce-svc-1'', rd_state = Map.empty, rd_config = Map.empty\<rparr>
     \<lparr>world = 0, events = []\<rparr> =
     (Some (Errorf ''Error waiting for VPC Endpoint Service %s to become available: %s''
              [''vpce-svc-1''] (ErrorsNew ''VPC Endpoint Service is in a failed state'')),
      \<lparr>world = 3,
       events = [WaitForStateEvent [''Pending''] [''Available''],
                 DescribeVpcEndpointServiceConfigurationsCall [''vpce-svc-1''],
                 DescribeVpcEndpointServiceConfigurationsCall [''vpce-svc-1''],
                 DescribeVpcEndpointServiceConfigurationsCall [''vpce-svc-1'']]\<rparr>)"
proof -
  let ?c = "scripted_client script_pending_failed 5"
  let ?d = "\<lparr>rd_id = ''vpce-svc-1'', rd_state = Map.empty, rd_config = Map.empty\<rparr>"
  let ?s = "\<lparr>world = 0::nat, events = []\<rparr>"
  have after: "after_describes ?c ''vpce-svc-1'' i w = w + i" for i w
    by (induction i arbitrary: w) (simp_all add: scripted_client_def)
  have label: "describe_label ?c ''vpce-svc-1'' w =
      Some (if w < 2 then ''Pending'' else ''Failed'')" for w
    by (simp add: describe_label_def scripted_client_def script_pending_failed_def
        cfg_in_state_def StringValue_def)
  have h1: "\<forall>i<2. describe_label ?c (rd_id ?d) (after_describes ?c (rd_id ?d) i (world ?s))
              = Some ServiceStatePending"
    by (simp add: after label ServiceStatePending_def)
  have h2: "describe_label ?c (rd_id ?d) (after_describes ?c (rd_id ?d) 2 (world ?s))
              = Some ServiceStateFailed"
    by (simp add: after label ServiceStateFailed_def)
  have h3: "2 < refreshes_within ?c (10 * 60) (world ?s)"
    by (simp add: scripted_client_def)
  from failed_label_short_circuits_polling[OF h1 h2 h3]
  have "vpcEndpointServiceWaitUntilAvailable ?c ?d ?s =
           (Some (Errorf ''Error waiting for VPC Endpoint Service %s to become available: %s''
                    [rd_id ?d] (ErrorsNew ''VPC Endpoint Service is in a failed state'')),
            \<lparr>world = after_describes ?c (rd_id ?d) (Suc 2) (world ?s),
             events = events ?s @
               WaitForStateEvent [ServiceStatePending] [ServiceStateAvailable] #
               replicate (Suc 2) (DescribeVpcEndpointServiceConfigurationsCall [rd_id ?d])\<rparr>)"
    by blast
  moreover have "after_describes ?c ''vpce-svc-1'' 3 0 = 3"
    using after[of 3 0] by simp
  moreover have "replicate 3 x = [x, x, x]" for x :: event
    by (simp add: numeral_3_eq_3)
  moreover have "describe_label ?c ''vpce-svc-1'' (after_describes ?c ''vpce-svc-1'' 0 0)
      = Some ServiceStatePending"
    by (simp only: after) (simp add: label ServiceStatePending_def)
  moreover have "describe_label ?c ''vpce-svc-1'' (after_describes ?c ''vpce-svc-1'' 1 0)
      = Some ServiceStatePending"
    by (simp only: after) (simp add: label ServiceStatePending_def)
  ultimately show ?thesis
    using h2 h3
    by (simp add: ServiceStatePending_def ServiceStateAvailable_def)
qed

text \<open>
  C5. A refresh whose describe call fails with the recognised not-found code reports
  the label \<open>deleted\<close> with a non-nil snapshot and no error. So the deletion poller
  (Pending available and deleting, Target deleted), after any number of refreshes
  that showed \<open>available\<close> or \<open>deleting\<close>, ends without error at the first refresh
  that finds the service gone, provided that refresh happens before the timeout.
\<close>

theorem disappearance_completes_deletion_polling:
  assumes pend: "\<forall>i<k. describe_label conn svcId (after_describes conn svcId i (world s))
                          \<in> {Some ServiceStateAvailable, Some ServiceStateDeleting}"
    and gone: "describe_not_found conn svcId (after_describes conn svcId k (world s))"
    and budget: "k < refreshes_within conn (10 * 60) (world s)"
  shows "(\<forall>s1. world s1 = after_describes conn svcId k (world s) \<longrightarrow>
            fst (vpcEndpointServiceStateRefresh conn svcId s1) =
              (RFalse, ServiceStateDeleted, None)) \<and>
         waitForVpcEndpointServiceDeletion conn svcId s =
           (None,
            \<lparr>world = after_describes conn svcId (Suc k) (world s),
             events = events s @
               WaitForStateEvent [ServiceStateAvailable, ServiceStateDeleting] [ServiceStateDeleted] #
               replicate (Suc k) (DescribeVpcEndpointServiceConfigurationsCall [svcId])\<rparr>)"
proof (intro conjI allI impI)
  fix s1 :: "'a sys"
  assume "world s1 = after_describes conn svcId k (world s)"
  with gone show "fst (vpcEndpointServiceStateRefresh conn svcId s1) =
              (RFalse, ServiceStateDeleted, None)"
    by (simp add: refresh_not_found)
next
  let ?conf = "\<lparr>Pending = [ServiceStateAvailable, ServiceStateDeleting],
                 Target = [ServiceStateDeleted],
                 Refresh = vpcEndpointServiceStateRefresh conn svcId,
                 Timeout = 10 * 60, Delay = 5, MinTimeout = 5\<rparr>"
  let ?s0 = "s\<lparr>events := events s @
                 [WaitForStateEvent [ServiceStateAvailable, ServiceStateDeleting]
                    [ServiceStateDeleted]]\<rparr>"
  have R: "Refresh ?conf = vpcEndpointServiceStateRefresh conn svcId"
    by simp
  obtain m where m: "refreshes_within conn (10 * 60) (world s) = k + Suc m"
    using budget less_imp_Suc_add by (metis add_Suc_right)
  have pend': "\<forall>i<k. \<exists>l. describe_label conn svcId (after_describes conn svcId i (world ?s0)) = Some l
                 \<and> l \<noteq> ServiceStateFailed \<and> l \<notin> set (Target ?conf) \<and> l \<in> set (Pending ?conf)"
    using pend
    by (auto simp: ServiceStateAvailable_def ServiceStateDeleting_def ServiceStateFailed_def
        ServiceStateDeleted_def)
  have stop: "\<And>t l s1. world s1 = after_describes conn svcId k (world ?s0) \<Longrightarrow>
                 WaitForState_loop ?conf (Suc m) t l s1 =
                   ((RFalse, None),
                    \<lparr>world = snd (DescribeVpcEndpointServiceConfigurations conn [svcId] (world s1)),
                     events = events s1 @ [DescribeVpcEndpointServiceConfigurationsCall [svcId]]\<rparr>)"
    using loop_step_not_found[OF R] gone by simp
  have "WaitForState_loop ?conf (k + Suc m) 0 [] ?s0 =
     ((RFalse, None),
      \<lparr>world = after_describes conn svcId (Suc k) (world ?s0),
       events = events ?s0 @
         replicate (Suc k) (DescribeVpcEndpointServiceConfigurationsCall [svcId])\<rparr>)"
    by (rule loop_through_pending[OF R pend' stop])
  then show "waitForVpcEndpointServiceDeletion conn svcId s =
           (None,
            \<lparr>world = after_describes conn svcId (Suc k) (world s),
             events = events s @
               WaitForStateEvent [ServiceStateAvailable, ServiceStateDeleting] [ServiceStateDeleted] #
               replicate (Suc k) (DescribeVpcEndpointServiceConfigurationsCall [svcId])\<rparr>)"
    using m by (simp add: waitForVpcEndpointServiceDeletion_def WaitForState_def)
qed

theorem disappearance_completes_deletion_polling_witness:
  "describe_label (scripted_client script_deleting_gone 5) ''vpce-svc-1''
     (after_describes (scripted_client script_deleting_gone 5) ''vpce-svc-1'' 0 0)
     = Some ServiceStateDeleting \<and>
   describe_not_found (scripted_client script_deleting_gone 5) ''vpce-svc-1''
     (after_describes (scripted_client script_deleting_gone 5) ''vpce-svc-1'' 1 0) \<and>
   1 < refreshes_within (scripted_client script_deleting_gone 5) (10 * 60) 0 \<and>
   waitForVpcEndpointServiceDeletion (scripted_client script_deleting_gone 5) ''vpce-svc-1''
     \<lparr>world = 0, events = []\<rparr> =
     (None,
      \<lparr>world = 2,
       events = [WaitForStateEvent [''Available'', ''Deleting''] [''Deleted''],
                 DescribeVpcEndpointServiceConfigurationsCall [''vpce-svc-1''],
                 DescribeVpcEndpointServiceConfigurationsCall [''vpce-svc-1'']]\<rparr>)"
proof -
  let ?c = "scripted_client script_deleting_gone 5"
  let ?s = "\<lparr>world = 0::nat, events = []\<rparr>"
  have after: "after_describes ?c ''vpce-svc-1'' i w = w + i" for i w
    by (induction i arbitrary: w) (simp_all add: scripted_client_def)
  have h1: "\<forall>i<1. describe_label ?c ''vpce-svc-1'' (after_describes ?c ''vpce-svc-1'' i (world ?s))
              \<in> {Some ServiceStateAvailable, Some ServiceStateDeleting}"
    by (simp add: after describe_label_def scripted_client_def script_deleting_gone_def
        cfg_in_state_def StringValue_def ServiceStateDeleting_def)
  have h2: "describe_not_found ?c ''vpce-svc-1'' (after_describes ?c ''vpce-svc-1'' 1 (world ?s))"
    by (simp add: after describe_not_found_def scripted_client_def script_deleting_gone_def
        not_found_error_def)
  have h3: "1 < refreshes_within ?c (10 * 60) (world ?s)"
    by (simp add: scripted_client_def)
  from disappearance_completes_deletion_polling[OF h1 h2 h3]
  have "waitForVpcEndpointServiceDeletion ?c ''vpce-svc-1'' ?s =
           (None,
            \<lparr>world = after_describes ?c ''vpce-svc-1'' (Suc 1) (world ?s),
             events = events ?s @
               WaitForStateEvent [ServiceStateAvailable, ServiceStateDeleting] [ServiceStateDeleted] #
               replicate (Suc 1) (DescribeVpcEndpointServiceConfigurationsCall [''vpce-svc-1''])\<rparr>)"
    by blast
  moreover have "after_describes ?c ''vpce-svc-1'' 2 0 = 2"
    using after[of 2 0] by simp
  moreover have "replicate 2 x = [x, x]" for x :: event
    by (simp add: numeral_2_eq_2)
  moreover have "snd (DescribeVpcEndpointServiceConfigurations ?c ids w) = Suc w" for ids w
    by (simp add: scripted_client_def)
  moreover have "describe_label ?c ''vpce-svc-1'' (after_describes ?c ''vpce-svc-1'' 0 0)
      = Some ServiceStateDeleting"
    by (simp add: describe_label_def scripted_client_def script_deleting_gone_def
        cfg_in_state_def StringValue_def ServiceStateDeleting_def)
  ultimately show ?thesis
    using h2 h3
    by (simp add: ServiceStateAvailable_def ServiceStateDeleting_def ServiceStateDeleted_def)
qed

section \<open>Delete and Read of a resource that is gone\<close>

lemma wait_deletion_trace:
  "\<exists>k. snd (waitForVpcEndpointServiceDeletion conn svcId s) =
     \<lparr>world = after_describes conn svcId k (world s),
      events = events s @
        WaitForStateEvent [ServiceStateAvailable, ServiceStateDeleting] [ServiceStateDeleted] #
        replicate k (DescribeVpcEndpointServiceConfigurationsCall [svcId])\<rparr>"
proof -
  let ?conf = "\<lparr>Pending = [ServiceStateAvailable, ServiceStateDeleting],
                 Target = [ServiceStateDeleted],
                 Refresh = vpcEndpointServiceStateRefresh conn svcId,
                 Timeout = 10 * 60, Delay = 5, MinTimeout = 5\<rparr>"
  let ?s0 = "s\<lparr>events := events s @
                 [WaitForStateEvent [ServiceStateAvailable, ServiceStateDeleting]
                    [ServiceStateDeleted]]\<rparr>"
  have "Refresh ?conf = vpcEndpointServiceStateRefresh conn svcId"
    by simp
  from loop_trace[OF this, of "refreshes_within conn (10 * 60) (world s)" 0 "[]" ?s0]
  obtain k where "snd (WaitForState_loop ?conf (refreshes_within conn (10 * 60) (world s)) 0 [] ?s0) =
     \<lparr>world = after_describes conn svcId k (world ?s0),
      events = events ?s0 @ replicate k (DescribeVpcEndpointServiceConfigurationsCall [svcId])\<rparr>"
    by blast
  then show ?thesis
    by (intro exI[of _ k])
       (auto simp: waitForVpcEndpointServiceDeletion_def WaitForState_def split: prod.splits)
qed

lemma wait_deletion_success:
  assumes "waitForVpcEndpointServiceDeletion conn svcId s = (None, s')"
  shows "\<exists>s0 res. vpcEndpointServiceStateRefresh conn svcId s0 = ((res, ServiceStateDeleted, None), s')"
proof -
  let ?conf = "\<lparr>Pending = [ServiceStateAvailable, ServiceStateDeleting],
                 Target = [ServiceStateDeleted],
                 Refresh = vpcEndpointServiceStateRefresh conn svcId,
                 Timeout = 10 * 60, Delay = 5, MinTimeout = 5\<rparr>"
  from assms obtain res where
    "WaitForState conn ?conf s = ((res, None), s')"
    by (auto simp: waitForVpcEndpointServiceDeletion_def split: prod.splits)
  then have "\<exists>s0 st. Refresh ?conf s0 = ((res, st, None), s') \<and> st \<in> set (Target ?conf)"
    unfolding WaitForState_def by (rule loop_success_at_target)
  then show ?thesis
    by auto
qed

text \<open>
  C6. Delete issues the delete call first. An error of that call other than the
  recognised not-found code is returned (wrapped) at once, with no polling. On
  success or on the not-found code, Delete continues with the deletion poller
  (Pending available and deleting, Target deleted) and returns what the poller
  returns. Delete returns without error only from a state that a refresh showing
  the label \<open>deleted\<close> has just produced.
\<close>

theorem delete_tolerates_not_found_and_waits_for_deleted:
  assumes run: "resourceAwsVpcEndpointServiceDelete meta d s = (err, d', s')"
    and call: "DeleteVpcEndpointServiceConfigurations meta [rd_id d] (world s) = (resp, w1)"
  shows "(\<forall>e. resp = Some e \<longrightarrow> \<not> isAWSErr e ''InvalidVpcEndpointServiceId.NotFound'' [] \<longrightarrow>
            err = Some (wrapf ''Error deleting VPC Endpoint Service: %s'' [] e) \<and> d' = d \<and>
            s' = \<lparr>world = w1,
                  events = events s @ [DeleteVpcEndpointServiceConfigurationsCall [rd_id d]]\<rparr>) \<and>
         (resp = None \<or> (\<exists>e. resp = Some e \<and> isAWSErr e ''InvalidVpcEndpointServiceId.NotFound'' []) \<longrightarrow>
            (\<exists>k. events s' = events s @
                    DeleteVpcEndpointServiceConfigurationsCall [rd_id d] #
                    WaitForStateEvent [ServiceStateAvailable, ServiceStateDeleting] [ServiceStateDeleted] #
                    replicate k (DescribeVpcEndpointServiceConfigurationsCall [rd_id d])) \<and>
            err = map_option (wrapf ''Error waiting for VPC Endpoint Service %s to delete: %s'' [rd_id d])
                    (fst (waitForVpcEndpointServiceDeletion meta (rd_id d)
                            \<lparr>world = w1,
                             events = events s @ [DeleteVpcEndpointServiceConfigurationsCall [rd_id d]]\<rparr>))) \<and>
         (err = None \<longrightarrow>
            (\<exists>s0 res. vpcEndpointServiceStateRefresh meta (rd_id d) s0 =
                         ((res, ServiceStateDeleted, None), s')))"
proof -
  let ?s1 = "\<lparr>world = w1,
              events = events s @ [DeleteVpcEndpointServiceConfigurationsCall [rd_id d]]\<rparr>"
  have rc: "remote_call (DeleteVpcEndpointServiceConfigurationsCall [rd_id d])
              (DeleteVpcEndpointServiceConfigurations meta [rd_id d]) s = (resp, ?s1)"
    by (simp add: remote_call_eq call)
  obtain we s2 where w: "waitForVpcEndpointServiceDeletion meta (rd_id d) ?s1 = (we, s2)"
    by (cases "waitForVpcEndpointServiceDeletion meta (rd_id d) ?s1")
  from wait_deletion_trace[of meta "rd_id d" ?s1] w obtain k where
    k: "events s2 = events ?s1 @
        WaitForStateEvent [ServiceStateAvailable, ServiceStateDeleting] [ServiceStateDeleted] #
        replicate k (DescribeVpcEndpointServiceConfigurationsCall [rd_id d])"
    by auto
  have abort: "err = Some (wrapf ''Error deleting VPC Endpoint Service: %s'' [] e) \<and> d' = d \<and> s' = ?s1"
    if "resp = Some e" "\<not> isAWSErr e ''InvalidVpcEndpointServiceId.NotFound'' []" for e
    using run that by (auto simp: resourceAwsVpcEndpointServiceDelete_def rc)
  have go: "s' = s2 \<and>
      err = map_option (wrapf ''Error waiting for VPC Endpoint Service %s to delete: %s'' [rd_id d]) we"
    if "resp = None \<or> (\<exists>e. resp = Some e \<and> isAWSErr e ''InvalidVpcEndpointServiceId.NotFound'' [])"
    using run that
    by (auto simp: resourceAwsVpcEndpointServiceDelete_def rc w split: option.splits)
  have fin: "\<exists>s0 res. vpcEndpointServiceStateRefresh meta (rd_id d) s0 =
                         ((res, ServiceStateDeleted, None), s')"
    if "err = None"
  proof -
    from run that have "waitForVpcEndpointServiceDeletion meta (rd_id d) ?s1 = (None, s')"
      by (auto simp: resourceAwsVpcEndpointServiceDelete_def rc w
          split: option.splits if_splits elim!: wrapf.elims)
    then show ?thesis
      by (rule wait_deletion_success)
  qed
  show ?thesis
    using abort go fin k w by auto
qed

theorem delete_tolerates_not_found_and_waits_for_deleted_witness:
  "resourceAwsVpcEndpointServiceDelete (client_delete_fails not_found_error) service_data
     \<lparr>world = 0, events = []\<rparr> =
     (None, service_data,
      \<lparr>world = 1,
       events = [DeleteVpcEndpointServiceConfigurationsCall [''vpce-svc-1''],
                 WaitForStateEvent [''Available'', ''Deleting''] [''Deleted''],
                 DescribeVpcEndpointServiceConfigurationsCall [''vpce-svc-1'']]\<rparr>) \<and>
   (\<exists>s0 res. vpcEndpointServiceStateRefresh (client_delete_fails not_found_error) ''vpce-svc-1'' s0 =
      ((res, ServiceStateDeleted, None),
       \<lparr>world = 1,
        events = [DeleteVpcEndpointServiceConfigurationsCall [''vpce-svc-1''],
                  WaitForStateEvent [''Available'', ''Deleting''] [''Deleted''],
                  DescribeVpcEndpointServiceConfigurationsCall [''vpce-svc-1'']]\<rparr>)) \<and>
   resourceAwsVpcEndpointServiceDelete
     (client_delete_fails (AWSErr ''UnauthorizedOperation'' ''denied'' (Some 403))) service_data
     \<lparr>world = 0, events = []\<rparr> =
     (Some (Errorf ''Error deleting VPC Endpoint Service: %s'' []
              (AWSErr ''UnauthorizedOperation'' ''denied'' (Some 403))),
      service_data,
      \<lparr>world = 0, events = [DeleteVpcEndpointServiceConfigurationsCall [''vpce-svc-1'']]\<rparr>)"
proof -
  let ?c1 = "client_delete_fails not_found_error"
  let ?e2 = "AWSErr ''UnauthorizedOperation'' ''denied'' (Some 403)"
  let ?c2 = "client_delete_fails ?e2"
  let ?s = "\<lparr>world = 0::nat, events = []\<rparr>"
  let ?s1 = "\<lparr>world = 1::nat,
       events = [DeleteVpcEndpointServiceConfigurationsCall [''vpce-svc-1''],
                 WaitForStateEvent [''Available'', ''Deleting''] [''Deleted''],
                 DescribeVpcEndpointServiceConfigurationsCall [''vpce-svc-1'']]\<rparr>"
  have run1: "resourceAwsVpcEndpointServiceDelete ?c1 service_data ?s = (None, service_data, ?s1)"
    by (simp add: resourceAwsVpcEndpointServiceDelete_def remote_call_def
        waitForVpcEndpointServiceDeletion_def WaitForState_def vpcEndpointServiceStateRefresh_def
        client_delete_fails_def scripted_client_def script_gone_def not_found_error_def
        service_data_def ServiceStateAvailable_def ServiceStateDeleting_def ServiceStateDeleted_def
        eval_nat_numeral)
  have call1: "DeleteVpcEndpointServiceConfigurations ?c1 [rd_id service_data] (world ?s)
                 = (Some not_found_error, 0)"
    by (simp add: client_delete_fails_def)
  have call2: "DeleteVpcEndpointServiceConfigurations ?c2 [rd_id service_data] (world ?s)
                 = (Some ?e2, 0)"
    by (simp add: client_delete_fails_def)
  obtain err2 d2 s2 where run2: "resourceAwsVpcEndpointServiceDelete ?c2 service_data ?s = (err2, d2, s2)"
    by (metis prod_cases3)
  have nf: "\<not> isAWSErr ?e2 ''InvalidVpcEndpointServiceId.NotFound'' []"
    by simp
  from delete_tolerates_not_found_and_waits_for_deleted[OF run1 call1]
  have a: "\<exists>s0 res. vpcEndpointServiceStateRefresh ?c1 (rd_id service_data) s0 =
             ((res, ServiceStateDeleted, None), ?s1)"
    by blast
  from delete_tolerates_not_found_and_waits_for_deleted[OF run2 call2] nf
  have b: "err2 = Some (wrapf ''Error deleting VPC Endpoint Service: %s'' [] ?e2) \<and> d2 = service_data \<and>
           s2 = \<lparr>world = 0,
                  events = events ?s @ [DeleteVpcEndpointServiceConfigurationsCall [rd_id service_data]]\<rparr>"
    by blast
  show ?thesis
    using run1 a b run2 by (simp add: service_data_def)
qed

text \<open>
  C7. Read treats a resource that no longer exists as stale local state. For the VPC
  endpoint service: when the describe call answers with the not-found code, or shows
  the label \<open>deleted\<close>, \<open>deleting\<close> or \<open>failed\<close>, Read sets the resource id to the
  empty string and returns no error, after that one call. For the S3 object copy:
  when the head request fails with HTTP status 404, Read does the same.
\<close>

theorem read_clears_the_record_of_a_missing_resource:
  "(describe_not_found meta (rd_id d) (world s) \<or>
    describe_label meta (rd_id d) (world s)
      \<in> {Some ServiceStateDeleted, Some ServiceStateDeleting, Some ServiceStateFailed} \<longrightarrow>
      resourceAwsVpcEndpointServiceRead meta d s =
        (None, d\<lparr>rd_id := []\<rparr>,
         \<lparr>world = snd (DescribeVpcEndpointServiceConfigurations meta [rd_id d] (world s)),
          events = events s @
            [DescribeVpcEndpointServiceConfigurationsCall [rd_id d], SetIdEvent []]\<rparr>)) \<and>
   (\<forall>e w1. HeadObject meta (Some (GetString d ''bucket'')) (Some (GetString d ''key'')) (world s)
              = (Inl e, w1) \<longrightarrow>
            ErrStatusCodeEquals e 404 \<longrightarrow>
      resourceAwsS3ObjectCopyRead meta d s =
        (None, d\<lparr>rd_id := []\<rparr>,
         \<lparr>world = w1,
          events = events s @
            [HeadObjectCall (Some (GetString d ''bucket'')) (Some (GetString d ''key'')),
             SetIdEvent []]\<rparr>))"
proof (intro conjI allI impI)
  let ?s1 = "\<lparr>world = snd (DescribeVpcEndpointServiceConfigurations meta [rd_id d] (world s)),
              events = events s @ [DescribeVpcEndpointServiceConfigurationsCall [rd_id d]]\<rparr>"
  assume obs: "describe_not_found meta (rd_id d) (world s) \<or>
    describe_label meta (rd_id d) (world s)
      \<in> {Some ServiceStateDeleted, Some ServiceStateDeleting, Some ServiceStateFailed}"
  have "\<exists>res st err. vpcEndpointServiceStateRefresh meta (rd_id d) s = ((res, st, err), ?s1) \<and>
          st \<in> set [ServiceStateDeleted, ServiceStateDeleting, ServiceStateFailed] \<and>
          (st \<noteq> ServiceStateFailed \<longrightarrow> err = None)"
  proof -
    obtain res st err s1 where r: "vpcEndpointServiceStateRefresh meta (rd_id d) s = ((res, st, err), s1)"
      by (metis prod_cases3 surj_pair)
    then have s1: "s1 = ?s1"
      using refresh_snd[of meta "rd_id d" s] by simp
    have ne: "ServiceStateDeleted \<noteq> ServiceStateFailed" "ServiceStateDeleting \<noteq> ServiceStateFailed"
      by (simp_all add: ServiceStateDeleted_def ServiceStateDeleting_def ServiceStateFailed_def)
    from obs have "describe_not_found meta (rd_id d) (world s) \<or>
        describe_label meta (rd_id d) (world s) = Some ServiceStateFailed \<or>
        describe_label meta (rd_id d) (world s) = Some ServiceStateDeleted \<or>
        describe_label meta (rd_id d) (world s) = Some ServiceStateDeleting"
      by auto
    then show ?thesis
    proof (elim disjE)
      assume "describe_not_found meta (rd_id d) (world s)"
      from refresh_not_found[OF this] r s1 show ?thesis by simp
    next
      assume "describe_label meta (rd_id d) (world s) = Some ServiceStateFailed"
      from refresh_failed[OF this] r s1 show ?thesis by simp
    next
      assume "describe_label meta (rd_id d) (world s) = Some ServiceStateDeleted"
      from refresh_label[OF this ne(1)] r s1 show ?thesis by auto
    next
      assume "describe_label meta (rd_id d) (world s) = Some ServiceStateDeleting"
      from refresh_label[OF this ne(2)] r s1 show ?thesis by auto
    qed
  qed
  then show "resourceAwsVpcEndpointServiceRead meta d s =
        (None, d\<lparr>rd_id := []\<rparr>,
         \<lparr>world = snd (DescribeVpcEndpointServiceConfigurations meta [rd_id d] (world s)),
          events = events s @
            [DescribeVpcEndpointServiceConfigurationsCall [rd_id d], SetIdEvent []]\<rparr>)"
    by (auto simp: resourceAwsVpcEndpointServiceRead_def SetId_def)
next
  fix e w1
  assume "HeadObject meta (Some (GetString d ''bucket'')) (Some (GetString d ''key'')) (world s)
            = (Inl e, w1)"
    and "ErrStatusCodeEquals e 404"
  then show "resourceAwsS3ObjectCopyRead meta d s =
        (None, d\<lparr>rd_id := []\<rparr>,
         \<lparr>world = w1,
          events = events s @
            [HeadObjectCall (Some (GetString d ''bucket'')) (Some (GetString d ''key'')),
             SetIdEvent []]\<rparr>)"
    by (simp add: resourceAwsS3ObjectCopyRead_def remote_call_def SetId_def Let_def)
qed

theorem read_clears_the_record_of_a_missing_resource_witness:
  "describe_not_found (scripted_client script_gone 5) ''vpce-svc-1'' 0 \<and>
   resourceAwsVpcEndpointServiceRead (scripted_client script_gone 5) service_data
     \<lparr>world = 0, events = []\<rparr> =
     (None, service_data\<lparr>rd_id := []\<rparr>,
      \<lparr>world = 1,
       events = [DescribeVpcEndpointServiceConfigurationsCall [''vpce-svc-1''], SetIdEvent []]\<rparr>) \<and>
   ErrStatusCodeEquals (AWSErr ''NotFound'' ''Not Found'' (Some 404)) 404 \<and>
   resourceAwsS3ObjectCopyRead (client_head_fails (AWSErr ''NotFound'' ''Not Found'' (Some 404)))
     object_data \<lparr>world = 0, events = []\<rparr> =
     (None, object_data\<lparr>rd_id := []\<rparr>,
      \<lparr>world = 0, events = [HeadObjectCall (Some ''b'') (Some ''dir/file''), SetIdEvent []]\<rparr>)"
proof -
  let ?c = "scripted_client script_gone 5"
  let ?e = "AWSErr ''NotFound'' ''Not Found'' (Some 404)"
  let ?s = "\<lparr>world = 0::nat, events = []\<rparr>"
  have h1: "describe_not_found ?c (rd_id service_data) (world ?s)"
    by (simp add: describe_not_found_def scripted_client_def script_gone_def not_found_error_def)
  have h2: "HeadObject (client_head_fails ?e) (Some (GetString object_data ''bucket''))
              (Some (GetString object_data ''key'')) (world ?s) = (Inl ?e, 0)"
    by (simp add: client_head_fails_def)
  have h3: "ErrStatusCodeEquals ?e 404"
    by simp
  have g: "GetString object_data ''bucket'' = ''b''" "GetString object_data ''key'' = ''dir/file''"
    by (simp_all add: GetString_def object_data_def)
  have w: "snd (DescribeVpcEndpointServiceConfigurations ?c ids 0) = 1" for ids
    by (simp add: scripted_client_def)
  have a: "resourceAwsVpcEndpointServiceRead ?c service_data ?s =
        (None, service_data\<lparr>rd_id := []\<rparr>,
         \<lparr>world = snd (DescribeVpcEndpointServiceConfigurations ?c [rd_id service_data] (world ?s)),
          events = events ?s @
            [DescribeVpcEndpointServiceConfigurationsCall [rd_id service_data], SetIdEvent []]\<rparr>)"
    using read_clears_the_record_of_a_missing_resource[of ?c service_data ?s] h1 by blast
  have b: "resourceAwsS3ObjectCopyRead (client_head_fails ?e) object_data ?s =
        (None, object_data\<lparr>rd_id := []\<rparr>,
         \<lparr>world = 0,
          events = events ?s @
            [HeadObjectCall (Some (GetString object_data ''bucket''))
               (Some (GetString object_data ''key'')), SetIdEvent []]\<rparr>)"
    using read_clears_the_record_of_a_missing_resource[of "client_head_fails ?e" object_data ?s] h2 h3
    by blast
  show ?thesis
    using h1 a b by (simp add: g w service_data_def)
qed

section \<open>The key of the S3 object copy\<close>

lemma has_double_slash_sublist: "has_double_slash str \<longleftrightarrow> sublist ''//'' str"
proof (induction str rule: has_double_slash.induct)
  case (1 a b cs)
  have "sublist ''//'' (a # b # cs) \<longleftrightarrow> prefix ''//'' (a # b # cs) \<or> sublist ''//'' (b # cs)"
    by (rule sublist_Cons_right)
  then show ?case using 1 by auto
qed (simp_all add: sublist_Cons_right)

lemma starts_with_slash_dropWhile:
  "\<not> starts_with_slash (dropWhile (\<lambda>x. x = CHR ''/'') cs)"
  by (induction cs) (auto simp: starts_with_slash_def)

lemma dropWhile_no_leading_slash:
  "\<not> starts_with_slash cs \<Longrightarrow> dropWhile (\<lambda>x. x = CHR ''/'') cs = cs"
  by (cases cs) (auto simp: starts_with_slash_def)

lemma Replace_starts_with_slash:
  "starts_with_slash (ReplaceAllString_slashes str ''/'') \<longleftrightarrow> starts_with_slash str"
  by (cases str) (auto simp: starts_with_slash_def)

lemma has_double_slash_Cons:
  "has_double_slash (c # cs) \<longleftrightarrow> (c = CHR ''/'' \<and> starts_with_slash cs) \<or> has_double_slash cs"
  by (cases cs) (auto simp: starts_with_slash_def)

lemma Replace_no_double_slash:
  "repl = ''/'' \<Longrightarrow> \<not> has_double_slash (ReplaceAllString_slashes str repl)"
proof (induction str repl rule: ReplaceAllString_slashes.induct)
  case (1 repl)
  then show ?case by simp
next
  case (2 c cs repl)
  then show ?case
    by (auto simp: has_double_slash_Cons Replace_starts_with_slash starts_with_slash_dropWhile)
qed

lemma Replace_fixpoint:
  "repl = ''/'' \<Longrightarrow> \<not> has_double_slash str \<Longrightarrow> ReplaceAllString_slashes str repl = str"
proof (induction str repl rule: ReplaceAllString_slashes.induct)
  case (1 repl)
  then show ?case by simp
next
  case (2 c cs repl)
  then show ?case
    by (auto simp: has_double_slash_Cons dropWhile_no_leading_slash)
qed

lemma dropWhile_slashes_append:
  "dropWhile (\<lambda>x. x = CHR ''/'') (xs @ CHR ''/'' # CHR ''/'' # ys) =
   (if \<forall>x\<in>set xs. x = CHR ''/'' then dropWhile (\<lambda>x. x = CHR ''/'') ys
    else dropWhile (\<lambda>x. x = CHR ''/'') xs @ CHR ''/'' # CHR ''/'' # ys)"
  "dropWhile (\<lambda>x. x = CHR ''/'') (xs @ CHR ''/'' # ys) =
   (if \<forall>x\<in>set xs. x = CHR ''/'' then dropWhile (\<lambda>x. x = CHR ''/'') ys
    else dropWhile (\<lambda>x. x = CHR ''/'') xs @ CHR ''/'' # ys)"
  by (induction xs) auto

lemma Replace_collapses_run:
  "ReplaceAllString_slashes (xs @ ''//'' @ ys) repl = ReplaceAllString_slashes (xs @ ''/'' @ ys) repl"
proof (induction xs repl rule: ReplaceAllString_slashes.induct)
  case (1 repl)
  then show ?case by simp
next
  case (2 c cs repl)
  then show ?case
    by (auto simp: dropWhile_slashes_append)
qed

lemma Replace_keeps_other_characters:
  "repl = ''/'' \<Longrightarrow>
   filter (\<lambda>x. x \<noteq> CHR ''/'') (ReplaceAllString_slashes str repl) = filter (\<lambda>x. x \<noteq> CHR ''/'') str"
proof (induction str repl rule: ReplaceAllString_slashes.induct)
  case (1 repl)
  then show ?case by simp
next
  case (2 c cs repl)
  have "filter (\<lambda>x. x \<noteq> CHR ''/'') (dropWhile (\<lambda>x. x = CHR ''/'') cs) = filter (\<lambda>x. x \<noteq> CHR ''/'') cs"
    by (induction cs) auto
  with 2 show ?case by auto
qed

lemma TrimLeft_slash: "TrimLeft key ''/'' = dropWhile (\<lambda>x. x = CHR ''/'') key"
  by (simp add: TrimLeft_def)

lemma starts_with_slash_prefix: "starts_with_slash str \<longleftrightarrow> prefix ''/'' str"
  by (cases str) (auto simp: starts_with_slash_def)

lemma dropWhile_replicate_slashes:
  "dropWhile (\<lambda>x. x = CHR ''/'') (replicate n (CHR ''/'') @ key) = dropWhile (\<lambda>x. x = CHR ''/'') key"
  by (induction n) auto

lemma Read_object_first_event:
  "\<exists>rest. events (snd (snd (resourceAwsS3ObjectCopyRead meta d s))) =
     events s @ HeadObjectCall (Some (GetString d ''bucket'')) (Some (GetString d ''key'')) # rest"
  by (auto simp: resourceAwsS3ObjectCopyRead_def remote_call_eq SetId_def Let_def
      split: prod.splits sum.splits option.splits)

lemma DoCopy_first_event:
  "DoCopy_grants d = Inr g \<Longrightarrow>
   \<exists>rest. events (snd (snd (resourceAwsS3ObjectCopyDoCopy meta d s))) =
     events s @ CopyObjectCall (DoCopy_input meta d g) # rest"
  by (auto simp: resourceAwsS3ObjectCopyDoCopy_def remote_call_eq SetId_def Let_def
      split: prod.splits sum.splits option.splits)

lemma DoCopy_input_Key: "co_Key (DoCopy_input meta d g) = Some (GetString d ''key'')"
  by (simp add: DoCopy_input_def)

lemma Delete_object_events:
  "events (snd (snd (resourceAwsS3ObjectCopyDelete meta d s))) =
     events s @
       [if GetOk d ''version_id''
        then DeleteAllS3ObjectVersionsCall (GetString d ''bucket'') (delete_key (GetString d ''key''))
               (GetBool d ''force_destroy'') False
        else DeleteS3ObjectVersionCall (GetString d ''bucket'') (delete_key (GetString d ''key''))
               [] False]"
  by (auto simp: resourceAwsS3ObjectCopyDelete_def remote_call_eq delete_key_def Let_def
      split: prod.splits option.splits)

text \<open>
  C10. Delete of the S3 object copy issues one delete call, for the key attribute
  with all leading slashes stripped and every run of slashes collapsed to one slash:
  the key it targets never starts with a slash and never contains two slashes in a
  row, it does not depend on how many slashes lead the attribute or how long a run
  of slashes is, it keeps every other character, and a key that is already in this
  form is targeted as it is. Read and the copy operation use the key attribute
  verbatim.
\<close>

theorem delete_targets_the_normalized_key:
  "events (snd (snd (resourceAwsS3ObjectCopyDelete meta d s))) =
     events s @
       [if GetOk d ''version_id''
        then DeleteAllS3ObjectVersionsCall (GetString d ''bucket'') (delete_key (GetString d ''key''))
               (GetBool d ''force_destroy'') False
        else DeleteS3ObjectVersionCall (GetString d ''bucket'') (delete_key (GetString d ''key''))
               [] False] \<and>
   \<not> prefix ''/'' (delete_key key) \<and>
   \<not> sublist ''//'' (delete_key key) \<and>
   delete_key (replicate n (CHR ''/'') @ key) = delete_key key \<and>
   delete_key (xs @ ''//'' @ ys) = delete_key (xs @ ''/'' @ ys) \<and>
   filter (\<lambda>c. c \<noteq> CHR ''/'') (delete_key key) = filter (\<lambda>c. c \<noteq> CHR ''/'') key \<and>
   (\<not> prefix ''/'' key \<and> \<not> sublist ''//'' key \<longrightarrow> delete_key key = key) \<and>
   (\<exists>rest. events (snd (snd (resourceAwsS3ObjectCopyRead meta d s))) =
      events s @ HeadObjectCall (Some (GetString d ''bucket'')) (Some (GetString d ''key'')) # rest) \<and>
   (\<forall>g. DoCopy_grants d = Inr g \<longrightarrow>
      co_Key (DoCopy_input meta d g) = Some (GetString d ''key'') \<and>
      (\<exists>rest. events (snd (snd (resourceAwsS3ObjectCopyDoCopy meta d s))) =
         events s @ CopyObjectCall (DoCopy_input meta d g) # rest))"
proof -
  have a: "\<not> prefix ''/'' (delete_key key)"
    unfolding starts_with_slash_prefix[symmetric] delete_key_def TrimLeft_slash
    by (simp add: Replace_starts_with_slash starts_with_slash_dropWhile)
  have b: "\<not> sublist ''//'' (delete_key key)"
    unfolding has_double_slash_sublist[symmetric] delete_key_def
    by (simp add: Replace_no_double_slash)
  have c: "delete_key (replicate n (CHR ''/'') @ key) = delete_key key"
    by (simp add: delete_key_def TrimLeft_slash dropWhile_replicate_slashes)
  have e: "delete_key (xs @ ''//'' @ ys) = delete_key (xs @ ''/'' @ ys)"
    using Replace_collapses_run[of "dropWhile (\<lambda>x. x = CHR ''/'') xs" ys "''/''"]
    by (simp add: delete_key_def TrimLeft_slash dropWhile_slashes_append)
  have f: "filter (\<lambda>c. c \<noteq> CHR ''/'') (delete_key key) = filter (\<lambda>c. c \<noteq> CHR ''/'') key"
  proof -
    have "filter (\<lambda>x. x \<noteq> CHR ''/'') (dropWhile (\<lambda>x. x = CHR ''/'') key) = filter (\<lambda>x. x \<noteq> CHR ''/'') key"
      by (induction key) auto
    then show ?thesis
      by (simp add: delete_key_def TrimLeft_slash Replace_keeps_other_characters)
  qed
  have g: "delete_key key = key" if "\<not> prefix ''/'' key \<and> \<not> sublist ''//'' key"
    using that
    unfolding starts_with_slash_prefix[symmetric] has_double_slash_sublist[symmetric]
    by (simp add: delete_key_def TrimLeft_slash dropWhile_no_leading_slash Replace_fixpoint)
  show ?thesis
    using a b c e f g Delete_object_events[of meta d s] Read_object_first_event[of meta d s]
      DoCopy_first_event[of d _ meta s] DoCopy_input_Key[of meta d]
    by blast
qed

theorem delete_targets_the_normalized_key_witness:
  "events (snd (snd (resourceAwsS3ObjectCopyDelete (scripted_client script_gone 5)
      slashed_object_data \<lparr>world = 0, events = []\<rparr>))) =
     [DeleteS3ObjectVersionCall ''b'' ''dir/file'' [] False] \<and>
   \<not> prefix ''/'' ''dir/file'' \<and> \<not> sublist ''//'' ''dir/file'' \<and>
   delete_key ''dir/file'' = ''dir/file'' \<and>
   DoCopy_grants slashed_object_data = Inr None \<and>
   co_Key (DoCopy_input (scripted_client script_gone 5) slashed_object_data None)
     = Some ''//dir///file'' \<and>
   (\<exists>rest. events (snd (snd (resourceAwsS3ObjectCopyDoCopy (scripted_client script_gone 5)
      slashed_object_data \<lparr>world = 0, events = []\<rparr>))) =
      CopyObjectCall (DoCopy_input (scripted_client script_gone 5) slashed_object_data None) # rest)"
proof -
  let ?c = "scripted_client script_gone 5"
  let ?s = "\<lparr>world = 0::nat, events = []\<rparr>"
  have k: "GetString slashed_object_data ''key'' = ''//dir///file''"
    "GetString slashed_object_data ''bucket'' = ''b''"
    "\<not> GetOk slashed_object_data ''version_id''"
    by (simp_all add: GetString_def GetOk_def slashed_object_data_def)
  have dk: "delete_key ''//dir///file'' = ''dir/file''"
    by (simp add: delete_key_def TrimLeft_def)
  have p: "\<not> prefix ''/'' ''dir/file'' \<and> \<not> sublist ''//'' ''dir/file''"
    by (simp add: has_double_slash_sublist[symmetric])
  have gr: "DoCopy_grants slashed_object_data = Inr None"
    by (simp add: DoCopy_grants_def GetOk_def slashed_object_data_def)
  note t = delete_targets_the_normalized_key[of ?c slashed_object_data ?s "''dir/file''"]
  from t have 1: "events (snd (snd (resourceAwsS3ObjectCopyDelete ?c slashed_object_data ?s))) =
     [DeleteS3ObjectVersionCall ''b'' ''dir/file'' [] False]"
    by (simp add: k dk)
  from t p have 2: "delete_key ''dir/file'' = ''dir/file''"
    by blast
  from t gr have 3: "co_Key (DoCopy_input ?c slashed_object_data None) = Some ''//dir///file'' \<and>
      (\<exists>rest. events (snd (snd (resourceAwsS3ObjectCopyDoCopy ?c slashed_object_data ?s))) =
         events ?s @ CopyObjectCall (DoCopy_input ?c slashed_object_data None) # rest)"
    using k by metis
  show ?thesis
    using 1 2 3 p gr by simp
qed

text \<open>
  C9. Update of the S3 object copy returns nil without any remote call, leaving the
  resource data as it is, when none of the four \<open>copy_if_*\<close> attributes is set and
  none of the attributes in \<open>args\<close> changed. When one of the \<open>copy_if_*\<close> attributes
  is set, Update is the copy operation, whether or not anything changed: its first
  remote call is CopyObject with the full input built from the resource data, which
  hands the conditions to the remote API.
\<close>

theorem object_update_copies_only_when_needed:
  "(\<not> GetOk d ''copy_if_match'' \<and> \<not> GetOk d ''copy_if_modified_since'' \<and>
    \<not> GetOk d ''copy_if_none_match'' \<and> \<not> GetOk d ''copy_if_unmodified_since'' \<and>
    (\<forall>key \<in> set Update_args. \<not> HasChange d key) \<longrightarrow>
      resourceAwsS3ObjectCopyUpdate meta d s = (None, d, s)) \<and>
   (GetOk d ''copy_if_match'' \<or> GetOk d ''copy_if_modified_since'' \<or>
    GetOk d ''copy_if_none_match'' \<or> GetOk d ''copy_if_unmodified_since'' \<longrightarrow>
      resourceAwsS3ObjectCopyUpdate meta d s = resourceAwsS3ObjectCopyDoCopy meta d s \<and>
      (\<forall>g. DoCopy_grants d = Inr g \<longrightarrow>
         (\<exists>rest. events (snd (snd (resourceAwsS3ObjectCopyUpdate meta d s))) =
            events s @ CopyObjectCall (DoCopy_input meta d g) # rest) \<and>
         co_CopySourceIfMatch (DoCopy_input meta d g) = GetOkString d ''copy_if_match'' \<and>
         co_CopySourceIfModifiedSince (DoCopy_input meta d g)
           = GetOkDate meta d ''copy_if_modified_since'' \<and>
         co_CopySourceIfNoneMatch (DoCopy_input meta d g) = GetOkString d ''copy_if_none_match'' \<and>
         co_CopySourceIfUnmodifiedSince (DoCopy_input meta d g)
           = GetOkDate meta d ''copy_if_unmodified_since''))"
proof (intro conjI impI)
  assume "\<not> GetOk d ''copy_if_match'' \<and> \<not> GetOk d ''copy_if_modified_since'' \<and>
    \<not> GetOk d ''copy_if_none_match'' \<and> \<not> GetOk d ''copy_if_unmodified_since'' \<and>
    (\<forall>key \<in> set Update_args. \<not> HasChange d key)"
  then show "resourceAwsS3ObjectCopyUpdate meta d s = (None, d, s)"
    by (simp add: resourceAwsS3ObjectCopyUpdate_def Update_copy_if_keys_def HasChanges_def
        list_ex_iff)
next
  assume c: "GetOk d ''copy_if_match'' \<or> GetOk d ''copy_if_modified_since'' \<or>
    GetOk d ''copy_if_none_match'' \<or> GetOk d ''copy_if_unmodified_since''"
  then show u: "resourceAwsS3ObjectCopyUpdate meta d s = resourceAwsS3ObjectCopyDoCopy meta d s"
    by (auto simp: resourceAwsS3ObjectCopyUpdate_def Update_copy_if_keys_def)
  show "\<forall>g. DoCopy_grants d = Inr g \<longrightarrow>
         (\<exists>rest. events (snd (snd (resourceAwsS3ObjectCopyUpdate meta d s))) =
            events s @ CopyObjectCall (DoCopy_input meta d g) # rest) \<and>
         co_CopySourceIfMatch (DoCopy_input meta d g) = GetOkString d ''copy_if_match'' \<and>
         co_CopySourceIfModifiedSince (DoCopy_input meta d g)
           = GetOkDate meta d ''copy_if_modified_since'' \<and>
         co_CopySourceIfNoneMatch (DoCopy_input meta d g) = GetOkString d ''copy_if_none_match'' \<and>
         co_CopySourceIfUnmodifiedSince (DoCopy_input meta d g)
           = GetOkDate meta d ''copy_if_unmodified_since''"
    using DoCopy_first_event[of d _ meta s] by (simp add: u DoCopy_input_def)
qed

theorem object_update_copies_only_when_needed_witness:
  "resourceAwsS3ObjectCopyUpdate (scripted_client script_gone 5) object_data
     \<lparr>world = 0, events = []\<rparr> = (None, object_data, \<lparr>world = 0, events = []\<rparr>) \<and>
   GetOk conditional_object_data ''copy_if_match'' \<and>
   \<not> HasChanges conditional_object_data Update_args \<and>
   DoCopy_grants conditional_object_data = Inr None \<and>
   (\<exists>rest. events (snd (snd (resourceAwsS3ObjectCopyUpdate (scripted_client script_gone 5)
      conditional_object_data \<lparr>world = 0, events = []\<rparr>))) =
      CopyObjectCall (DoCopy_input (scripted_client script_gone 5) conditional_object_data None) # rest) \<and>
   co_CopySourceIfMatch (DoCopy_input (scripted_client script_gone 5) conditional_object_data None)
     = Some ''etag-1''"
proof -
  let ?c = "scripted_client script_gone 5"
  let ?s = "\<lparr>world = 0::nat, events = []\<rparr>"
  have same: "rd_state x = rd_config x \<Longrightarrow> (\<And>k v. rd_config x k = Some v \<Longrightarrow> val_equal v v)
      \<Longrightarrow> \<not> HasChange x key" for x key
    by (cases "rd_config x key") (auto simp: HasChange_def)
  have n1: "\<forall>key \<in> set Update_args. \<not> HasChange object_data key"
    by (intro ballI same) (auto simp: object_data_def split: if_splits)
  have n2: "\<forall>key \<in> set Update_args. \<not> HasChange conditional_object_data key"
    by (intro ballI same) (auto simp: conditional_object_data_def split: if_splits)
  have o1: "\<not> GetOk object_data ''copy_if_match'' \<and> \<not> GetOk object_data ''copy_if_modified_since'' \<and>
    \<not> GetOk object_data ''copy_if_none_match'' \<and> \<not> GetOk object_data ''copy_if_unmodified_since''"
    by (simp add: GetOk_def object_data_def)
  have o2: "GetOk conditional_object_data ''copy_if_match''"
    by (simp add: GetOk_def conditional_object_data_def)
  have gr: "DoCopy_grants conditional_object_data = Inr None"
    by (simp add: DoCopy_grants_def GetOk_def conditional_object_data_def)
  have gs: "GetOkString conditional_object_data ''copy_if_match'' = Some ''etag-1''"
    by (simp add: GetOkString_def GetOk_def GetString_def conditional_object_data_def)
  from object_update_copies_only_when_needed[of object_data ?c ?s] o1 n1
  have 1: "resourceAwsS3ObjectCopyUpdate ?c object_data ?s = (None, object_data, ?s)"
    by blast
  from object_update_copies_only_when_needed[of conditional_object_data ?c ?s] o2 gr
  have 2: "(\<exists>rest. events (snd (snd (resourceAwsS3ObjectCopyUpdate ?c conditional_object_data ?s))) =
            events ?s @ CopyObjectCall (DoCopy_input ?c conditional_object_data None) # rest) \<and>
         co_CopySourceIfMatch (DoCopy_input ?c conditional_object_data None)
           = GetOkString conditional_object_data ''copy_if_match''"
    by blast
  have n3: "\<not> HasChanges conditional_object_data Update_args"
    using n2 by (simp add: HasChanges_def list_ex_iff)
  show ?thesis
    using 1 2 o2 n3 gr gs by simp
qed

section \<open>Traces of the VPC endpoint service operations\<close>

lemma rd_id_Set [simp]:
  "rd_id (Set_attr d key v) = rd_id d"
  "rd_id (Set_string_ptr d key sp) = rd_id d"
  "rd_id (Set_bool_ptr d key bp) = rd_id d"
  by (simp_all add: Set_attr_def Set_string_ptr_def Set_bool_ptr_def split: option.splits)













section \<open>Update of the VPC endpoint service\<close>



section \<open>Empty difference lists\<close>






end
